theory Spec2Isabelle
  imports Complex_Main "HOL-Library.AList"
begin

section \<open>The Docker registry client of \<^verbatim>\<open>lib/datasource/docker/common.ts\<close>\<close>

text \<open>
  The module talks to four collaborators that are not part of it: the HTTP client, the
  host rules (credentials), the package cache and the ECR token service. It also relies
  on built-ins of the language (\<^verbatim>\<open>JSON.parse\<close>, string conversion, base64) and on the
  \<^verbatim>\<open>www-authenticate\<close> parser. The collaborators are parameters of the model (the record
  \<open>env\<close>); the module's own functions are translated one by one, every \<^verbatim>\<open>throw\<close> and
  every exception of a property read on \<^verbatim>\<open>null\<close>/\<^verbatim>\<open>undefined\<close> being a value \<open>Inl err\<close>.
\<close>

subsection \<open>JavaScript values\<close>

text \<open>
  The values \<^verbatim>\<open>JSON.parse\<close> produces, and \<^verbatim>\<open>undefined\<close>, which reading an absent
  property produces. Numbers are IEEE doubles: the finite ones are rationals (\<open>-0\<close> and
  \<open>0\<close> are not told apart by \<^verbatim>\<open>===\<close>, by truthiness or by string conversion), and
  \<^verbatim>\<open>JSON.parse("1e999")\<close> is \<^verbatim>\<open>Infinity\<close>. An object is the list of its own properties, each
  key once.
\<close>

datatype js_number = Finite rat | PosInfinity | NegInfinity

datatype js =
    JUndefined
  | JNull
  | JBool bool
  | JNum js_number
  | JStr string
  | JArr "js list"
  | JObj "(string \<times> js) list"

text \<open>Truthiness, as \<^verbatim>\<open>if (x)\<close>, \<^verbatim>\<open>!x\<close>, \<^verbatim>\<open>x && y\<close> and \<^verbatim>\<open>x || y\<close> test it.\<close>

fun truthy :: "js \<Rightarrow> bool" where
  "truthy JUndefined = False"
| "truthy JNull = False"
| "truthy (JBool b) = b"
| "truthy (JNum n) = (n \<noteq> Finite 0)"
| "truthy (JStr s) = (s \<noteq> [])"
| "truthy (JArr xs) = True"
| "truthy (JObj kvs) = True"

text \<open>Truthiness of an optional string field such as \<^verbatim>\<open>opts.username\<close>.\<close>

definition truthy_field :: "string option \<Rightarrow> bool" where
  "truthy_field x = (case x of None \<Rightarrow> False | Some v \<Rightarrow> v \<noteq> [])"

subsection \<open>Exceptions\<close>

text \<open>
  What a \<^verbatim>\<open>catch (err)\<close> of the module reads of an error: \<^verbatim>\<open>err.name\<close>, \<^verbatim>\<open>err.message\<close>,
  \<^verbatim>\<open>err.statusCode\<close>, \<^verbatim>\<open>err.code\<close> and \<^verbatim>\<open>err.host\<close> (an absent field is \<open>None\<close>), and whether
  it is an \<^verbatim>\<open>ExternalHostError\<close>, which \<^verbatim>\<open>new ExternalHostError(err)\<close> builds around \<open>err\<close>.
\<close>

record error_fields =
  err_name :: string
  err_message :: string
  err_statusCode :: "int option"
  err_code :: "string option"
  err_host :: "string option"

datatype exn = Err error_fields | ExternalHostError exn

text \<open>
  The class \<^verbatim>\<open>ExternalHostError\<close> (\<^verbatim>\<open>lib/types/errors\<close>) is not among the sources. The spec
  has it as the distinguished "external host" error that orchestration tells from every
  other: it carries the error it wraps and has no status code, error code or host of its
  own. The five functions below read a field of whatever was thrown.
\<close>

text \<open>
  Modelled from the spec: \<^verbatim>\<open>err.statusCode\<close>; the distinguished "external host" error
  (\<^verbatim>\<open>ExternalHostError\<close>, not among the sources) has none.
\<close>

fun exn_statusCode :: "exn \<Rightarrow> int option" where
  "exn_statusCode (Err e) = err_statusCode e"
| "exn_statusCode (ExternalHostError e) = None"

text \<open>
  Modelled from the spec: \<^verbatim>\<open>err.code\<close>; the distinguished "external host" error
  (\<^verbatim>\<open>ExternalHostError\<close>, not among the sources) has none.
\<close>

fun exn_code :: "exn \<Rightarrow> string option" where
  "exn_code (Err e) = err_code e"
| "exn_code (ExternalHostError e) = None"

text \<open>
  Modelled from the spec: \<^verbatim>\<open>err.host\<close>; the distinguished "external host" error
  (\<^verbatim>\<open>ExternalHostError\<close>, not among the sources) has none.
\<close>

fun exn_host :: "exn \<Rightarrow> string option" where
  "exn_host (Err e) = err_host e"
| "exn_host (ExternalHostError e) = None"

text \<open>
  Modelled from the spec: \<^verbatim>\<open>err.name\<close>; the distinguished "external host" error
  (\<^verbatim>\<open>ExternalHostError\<close>, not among the sources) is a subclass of \<^verbatim>\<open>Error\<close> and keeps its
  name.
\<close>

fun exn_name :: "exn \<Rightarrow> string" where
  "exn_name (Err e) = err_name e"
| "exn_name (ExternalHostError e) = ''Error''"

text \<open>
  Modelled from the spec: \<^verbatim>\<open>err.message\<close>; the distinguished "external host" error
  (\<^verbatim>\<open>ExternalHostError\<close>, not among the sources) has a fixed message of its own.
\<close>

fun exn_message :: "exn \<Rightarrow> string" where
  "exn_message (Err e) = err_message e"
| "exn_message (ExternalHostError e) = ''external-host-error''"

text \<open>
  Modelled from the spec: \<^verbatim>\<open>err instanceof ExternalHostError\<close>, the test for the
  distinguished "external host" error (the class is not among the sources).
\<close>

fun instanceof_ExternalHostError :: "exn \<Rightarrow> bool" where
  "instanceof_ExternalHostError (Err e) = False"
| "instanceof_ExternalHostError (ExternalHostError e) = True"

text \<open>
  The \<^verbatim>\<open>TypeError\<close> of the language for a property read on \<^verbatim>\<open>null\<close> or \<^verbatim>\<open>undefined\<close>
  (the text of the message depends on the engine; the module never reads it).
\<close>

definition TypeError :: exn where
  "TypeError = Err \<lparr>err_name = ''TypeError'',
     err_message = ''Cannot read properties of undefined'',
     err_statusCode = None, err_code = None, err_host = None\<rparr>"

subsection \<open>Property reads\<close>

text \<open>
  \<open>js_prop v k\<close> is \<^verbatim>\<open>v[k]\<close> for a \<open>v\<close> that is neither \<^verbatim>\<open>null\<close> nor \<^verbatim>\<open>undefined\<close>, for
  the keys the module reads: \<^verbatim>\<open>length\<close>, \<^verbatim>\<open>0\<close> and names that no prototype defines
  (\<^verbatim>\<open>schemaVersion\<close>, \<^verbatim>\<open>mediaType\<close>, \<^verbatim>\<open>manifests\<close>, \<^verbatim>\<open>digest\<close>, \<^verbatim>\<open>config\<close>, \<^verbatim>\<open>Labels\<close>,
  \<^verbatim>\<open>token\<close>, \<^verbatim>\<open>access_token\<close>, \<^verbatim>\<open>authorizationData\<close>, \<^verbatim>\<open>authorizationToken\<close>).
\<close>

fun js_prop :: "js \<Rightarrow> string \<Rightarrow> js" where
  "js_prop (JObj kvs) k = (case map_of kvs k of None \<Rightarrow> JUndefined | Some v \<Rightarrow> v)"
| "js_prop (JArr xs) k =
     (if k = ''length'' then JNum (Finite (of_nat (length xs)))
      else if k = ''0'' then (case xs of [] \<Rightarrow> JUndefined | x # _ \<Rightarrow> x)
      else JUndefined)"
| "js_prop (JStr s) k =
     (if k = ''length'' then JNum (Finite (of_nat (length s)))
      else if k = ''0'' then (case s of [] \<Rightarrow> JUndefined | c # _ \<Rightarrow> JStr [c])
      else JUndefined)"
| "js_prop v k = JUndefined"

definition nullish :: "js \<Rightarrow> bool" where
  "nullish v = (v = JUndefined \<or> v = JNull)"

text \<open>\<^verbatim>\<open>v.k\<close> and \<^verbatim>\<open>v[0]\<close>: a \<^verbatim>\<open>TypeError\<close> on \<^verbatim>\<open>null\<close> and \<^verbatim>\<open>undefined\<close>.\<close>

definition js_member :: "js \<Rightarrow> string \<Rightarrow> exn + js" where
  "js_member v k = (if nullish v then Inl TypeError else Inr (js_prop v k))"

text \<open>\<^verbatim>\<open>v?.k\<close> and \<^verbatim>\<open>v?.[0]\<close>: \<^verbatim>\<open>undefined\<close> on \<^verbatim>\<open>null\<close> and \<^verbatim>\<open>undefined\<close>.\<close>

definition js_optional :: "js \<Rightarrow> string \<Rightarrow> js" where
  "js_optional v k = (if nullish v then JUndefined else js_prop v k)"

subsection \<open>Strings\<close>

definition startsWith :: "string \<Rightarrow> string \<Rightarrow> bool" where
  "startsWith s p = (take (length p) s = p)"

definition endsWith :: "string \<Rightarrow> string \<Rightarrow> bool" where
  "endsWith s p = (length p \<le> length s \<and> drop (length s - length p) s = p)"

definition js_includes :: "string \<Rightarrow> char \<Rightarrow> bool" where
  "js_includes s c = (c \<in> set s)"

text \<open>\<^verbatim>\<open>s.split(sep)\<close> for a separator of one character: \<^verbatim>\<open>''.split('/')\<close> is \<^verbatim>\<open>['']\<close>.\<close>

fun js_split :: "char \<Rightarrow> string \<Rightarrow> string list" where
  "js_split sep [] = [[]]"
| "js_split sep (c # cs) =
     (if c = sep then [] # js_split sep cs
      else (case js_split sep cs of [] \<Rightarrow> [[c]] | x # xs \<Rightarrow> (c # x) # xs))"

fun js_join :: "string \<Rightarrow> string list \<Rightarrow> string" where
  "js_join sep [] = []"
| "js_join sep [x] = x"
| "js_join sep (x # y # ys) = x @ sep @ js_join sep (y # ys)"

text \<open>
  \<^verbatim>\<open>s.replace(pat, rep)\<close> for a string pattern: the first occurrence only (the
  replacements of the module, \<^verbatim>\<open>''\<close> and \<^verbatim>\<open>'http'\<close>, have no \<^verbatim>\<open>$\<close> pattern).
\<close>

fun js_replace :: "string \<Rightarrow> string \<Rightarrow> string \<Rightarrow> string" where
  "js_replace [] pat rep = (if pat = [] then rep else [])"
| "js_replace (c # cs) pat rep =
     (if startsWith (c # cs) pat then rep @ drop (length pat) (c # cs)
      else c # js_replace cs pat rep)"

text \<open>The regular expression \<^verbatim>\<open>/^https?:\/\//\<close>: its test, and its replacement by \<^verbatim>\<open>''\<close>.\<close>

definition has_scheme :: "string \<Rightarrow> bool" where
  "has_scheme s = (startsWith s ''http://'' \<or> startsWith s ''https://'')"

definition strip_scheme :: "string \<Rightarrow> string" where
  "strip_scheme s =
     (if startsWith s ''http://'' then drop 7 s
      else if startsWith s ''https://'' then drop 8 s
      else s)"

text \<open>
  \<^verbatim>\<open>s.toUpperCase()\<close> on ASCII (the scheme of a challenge is matched by \<^verbatim>\<open>\w+\<close>, which is
  ASCII).
\<close>

definition toUpperCase :: "string \<Rightarrow> string" where
  "toUpperCase s =
     map (\<lambda>c. case map_of (zip ''abcdefghijklmnopqrstuvwxyz'' ''ABCDEFGHIJKLMNOPQRSTUVWXYZ'') c of
                 None \<Rightarrow> c | Some u \<Rightarrow> u) s"

text \<open>
  \<^verbatim>\<open>ecrRegex = /\d+\.dkr\.ecr\.([-a-z0-9]+)\.amazonaws\.com/\<close>. Both repetitions are followed
  by a literal dot that they cannot match, so the longest run is the only one that can
  succeed; the search tries every start from the left. The result is the captured region.
\<close>

definition ecr_match_here :: "string \<Rightarrow> string option" where
  "ecr_match_here s =
     (let digits = takeWhile (\<lambda>c. c \<in> set ''0123456789'') s;
          r1 = dropWhile (\<lambda>c. c \<in> set ''0123456789'') s;
          r2 = drop 9 r1;
          region = takeWhile (\<lambda>c. c \<in> set ''-abcdefghijklmnopqrstuvwxyz0123456789'') r2;
          r3 = dropWhile (\<lambda>c. c \<in> set ''-abcdefghijklmnopqrstuvwxyz0123456789'') r2
      in if digits = [] then None
         else if \<not> startsWith r1 ''.dkr.ecr.'' then None
         else if region = [] then None
         else if startsWith r3 ''.amazonaws.com'' then Some region
         else None)"

fun ecrRegex_exec :: "string \<Rightarrow> string option" where
  "ecrRegex_exec [] = None"
| "ecrRegex_exec (c # cs) =
     (case ecr_match_here (c # cs) of Some region \<Rightarrow> Some region | None \<Rightarrow> ecrRegex_exec cs)"

definition defaultRegistryUrls :: "string list" where
  "defaultRegistryUrls = [''https://index.docker.io'']"

text \<open>
  Modelled from the spec: \<^verbatim>\<open>MediaType.manifestListV2\<close> (the enumeration \<^verbatim>\<open>MediaType\<close> of
  \<^verbatim>\<open>./types\<close> is not among the sources) is the "manifest list" media type, the first of the
  two that \<^verbatim>\<open>getManifestResponse\<close> asks for in its \<^verbatim>\<open>accept\<close> header.
\<close>

definition manifestListV2 :: string where
  "manifestListV2 = ''application/vnd.docker.distribution.manifest.list.v2+json''"

text \<open>
  Modelled from the spec: \<^verbatim>\<open>MediaType.manifestV2\<close> (\<^verbatim>\<open>./types\<close>, not among the sources) is the
  "single-image manifest" media type, the second of the \<^verbatim>\<open>accept\<close> header.
\<close>

definition manifestV2 :: string where
  "manifestV2 = ''application/vnd.docker.distribution.manifest.v2+json''"

text \<open>
  Modelled from the spec: \<^verbatim>\<open>ensureTrailingSlash\<close> (\<^verbatim>\<open>lib/util/url\<close>, not among the sources)
  normalises the trailing slash of the host and path: the result ends in one slash.
\<close>

definition ensureTrailingSlash :: "string \<Rightarrow> string" where
  "ensureTrailingSlash url = (if endsWith url ''/'' then url else url @ ''/'')"

text \<open>
  Modelled from the spec: \<^verbatim>\<open>trimTrailingSlash\<close> (\<^verbatim>\<open>lib/util/url\<close>, not among the sources)
  strips the trailing slash of the registry URL.
\<close>

definition trimTrailingSlash :: "string \<Rightarrow> string" where
  "trimTrailingSlash url = rev (dropWhile (\<lambda>c. c = CHR ''/'') (rev url))"

subsection \<open>The collaborators\<close>

type_synonym headers = "(string \<times> string) list"

text \<open>A value that may be \<^verbatim>\<open>undefined\<close> or \<^verbatim>\<open>null\<close>, as \<^verbatim>\<open>OutgoingHttpHeaders | null\<close>.\<close>

datatype 'a nullable = Undefined | Null | Defined 'a

record response =
  resp_body :: string
  resp_headers :: headers
  resp_statusCode :: int

text \<open>The fields of a host rule that the module reads.\<close>

record host_rule =
  username :: "string option"
  password :: "string option"
  insecureRegistry :: "bool option"

text \<open>
  The options of a request: \<^verbatim>\<open>{throwHttpErrors: false}\<close>, \<^verbatim>\<open>{headers}\<close>, or the host rule
  that \<^verbatim>\<open>getAuthHeaders\<close> found, with its \<^verbatim>\<open>headers\<close> field added.
\<close>

record http_options =
  opt_username :: "string option"
  opt_password :: "string option"
  opt_insecureRegistry :: "bool option"
  opt_headers :: "headers option"
  opt_throwHttpErrors :: "bool option"

definition no_options :: http_options where
  "no_options = \<lparr>opt_username = None, opt_password = None, opt_insecureRegistry = None,
     opt_headers = None, opt_throwHttpErrors = None\<rparr>"

definition options_of_rule :: "host_rule \<Rightarrow> http_options" where
  "options_of_rule r = \<lparr>opt_username = username r, opt_password = password r,
     opt_insecureRegistry = insecureRegistry r, opt_headers = None,
     opt_throwHttpErrors = None\<rparr>"

record ecr_config =
  ecr_region :: string
  ecr_credentials :: "(string \<times> string) option"

text \<open>The parsed challenge: \<^verbatim>\<open>scheme\<close>, \<^verbatim>\<open>parms.realm\<close> and \<^verbatim>\<open>parms.service\<close>.\<close>

record challenge =
  scheme :: string
  parms_realm :: "string option"
  parms_service :: "string option"

datatype request =
    HttpGet string http_options
  | HttpGetJson string http_options
  | EcrGetAuthorizationToken ecr_config

text \<open>
  The collaborators. A network collaborator answers a request given the requests issued
  before it, so the same URL may be answered differently each time. \<open>http_getJson_impl\<close>
  gives the parsed body of the response. \<open>ToString_object\<close> is the string conversion of
  numbers, arrays and objects; \<open>HOST_DISABLED\<close> is the constant of
  \<^verbatim>\<open>lib/constants/error-messages\<close>.
\<close>

record env =
  http_get_impl :: "request list \<Rightarrow> string \<Rightarrow> http_options \<Rightarrow> exn + response"
  http_getJson_impl :: "request list \<Rightarrow> string \<Rightarrow> http_options \<Rightarrow> exn + js"
  hostRules_find :: "string \<Rightarrow> host_rule"
  ecr_getAuthorizationToken :: "request list \<Rightarrow> ecr_config \<Rightarrow> exn + js"
  WWW_Authenticate :: "string \<Rightarrow> exn + challenge"
  JSON_parse :: "string \<Rightarrow> exn + js"
  base64 :: "string \<Rightarrow> string"
  ToString_object :: "js \<Rightarrow> exn + string"
  HOST_DISABLED :: string

text \<open>
  The state the module works on: the requests issued so far (oldest first), and the
  package cache with its clock, in minutes.
\<close>

record state =
  requests :: "request list"
  cache :: "(string \<times> string) \<rightharpoonup> (js \<times> nat)"
  clock :: nat

definition http_get :: "env \<Rightarrow> string \<Rightarrow> http_options \<Rightarrow> state \<Rightarrow> (exn + response) \<times> state" where
  "http_get env url opts s =
     (http_get_impl env (requests s) url opts, s\<lparr>requests := requests s @ [HttpGet url opts]\<rparr>)"

definition http_getJson :: "env \<Rightarrow> string \<Rightarrow> http_options \<Rightarrow> state \<Rightarrow> (exn + js) \<times> state" where
  "http_getJson env url opts s =
     (http_getJson_impl env (requests s) url opts,
      s\<lparr>requests := requests s @ [HttpGetJson url opts]\<rparr>)"

text \<open>
  Modelled from the spec: \<^verbatim>\<open>packageCache.get\<close> (\<^verbatim>\<open>lib/util/cache/package\<close>, not among the
  sources) reads a store keyed by namespace and key, with a time to live in minutes:
  \<^verbatim>\<open>get(namespace, key) -> T | undefined\<close>. An entry holds its value and the minute at which
  it expires.
\<close>

definition packageCache_get :: "state \<Rightarrow> string \<Rightarrow> string \<Rightarrow> js" where
  "packageCache_get s namespace key =
     (case cache s (namespace, key) of
        None \<Rightarrow> JUndefined
      | Some (v, expires) \<Rightarrow> if clock s < expires then v else JUndefined)"

text \<open>
  Modelled from the spec: \<^verbatim>\<open>packageCache.set\<close> (\<^verbatim>\<open>lib/util/cache/package\<close>, not among the
  sources) writes the store: \<^verbatim>\<open>set(namespace, key, value, ttlMinutes) -> void\<close>.
\<close>

definition packageCache_set :: "string \<Rightarrow> string \<Rightarrow> js \<Rightarrow> nat \<Rightarrow> state \<Rightarrow> state" where
  "packageCache_set namespace key v ttlMinutes s =
     s\<lparr>cache := (cache s)((namespace, key) \<mapsto> (v, clock s + ttlMinutes))\<rparr>"

text \<open>String conversion in a template literal, \<^verbatim>\<open>`${v}`\<close>.\<close>

fun js_ToString :: "env \<Rightarrow> js \<Rightarrow> exn + string" where
  "js_ToString env (JStr s) = Inr s"
| "js_ToString env JUndefined = Inr ''undefined''"
| "js_ToString env JNull = Inr ''null''"
| "js_ToString env (JBool b) = Inr (if b then ''true'' else ''false'')"
| "js_ToString env v = ToString_object env v"

text \<open>\<^verbatim>\<open>String(x)\<close> of an optional string, as for \<^verbatim>\<open>authenticateHeader.parms.realm\<close>.\<close>

definition String_of :: "string option \<Rightarrow> string" where
  "String_of x = (case x of None \<Rightarrow> ''undefined'' | Some v \<Rightarrow> v)"

subsection \<open>\<^verbatim>\<open>getECRAuthToken\<close>\<close>

text \<open>
  Every failure of the token service is caught and logged; the result is the token, when
  \<^verbatim>\<open>data?.authorizationData?.[0]?.authorizationToken\<close> is truthy, and \<^verbatim>\<open>null\<close> otherwise.
\<close>

definition getECRAuthToken :: "env \<Rightarrow> string \<Rightarrow> http_options \<Rightarrow> state \<Rightarrow> js \<times> state" where
  "getECRAuthToken env region opts s =
     (let config = \<lparr>ecr_region = region,
            ecr_credentials =
              (if truthy_field (opt_username opts) \<and> truthy_field (opt_password opts)
               then Some (String_of (opt_username opts), String_of (opt_password opts))
               else None)\<rparr>;
          s1 = s\<lparr>requests := requests s @ [EcrGetAuthorizationToken config]\<rparr>
      in case ecr_getAuthorizationToken env (requests s) config of
           Inl err \<Rightarrow> (JNull, s1)
         | Inr data \<Rightarrow>
             (let authorizationToken =
                    js_optional (js_optional (js_optional data ''authorizationData'') ''0'')
                      ''authorizationToken''
              in if truthy authorizationToken then (authorizationToken, s1) else (JNull, s1)))"

subsection \<open>\<^verbatim>\<open>getAuthHeaders\<close>\<close>

text \<open>
  Lines 68 to 79: the \<^verbatim>\<open>authorization\<close> header is derived from the registry host, not from
  the challenge.
\<close>

definition getAuthHeaders_authorization ::
  "env \<Rightarrow> string \<Rightarrow> http_options \<Rightarrow> state \<Rightarrow> (exn + http_options) \<times> state" where
  "getAuthHeaders_authorization env registryUrl opts s =
     (case ecrRegex_exec registryUrl of
        Some region \<Rightarrow>
          (case getECRAuthToken env region opts s of
             (auth, s1) \<Rightarrow>
               if truthy auth then
                 (case js_ToString env auth of
                    Inl err \<Rightarrow> (Inl err, s1)
                  | Inr a \<Rightarrow>
                      (Inr (opts\<lparr>opt_headers := Some [(''authorization'', ''Basic '' @ a)]\<rparr>), s1))
               else (Inr opts, s1))
      | None \<Rightarrow>
          if truthy_field (opt_username opts) \<and> truthy_field (opt_password opts) then
            (let auth = base64 env
                   (String_of (opt_username opts) @ '':'' @ String_of (opt_password opts))
             in (Inr (opts\<lparr>opt_headers := Some [(''authorization'', ''Basic '' @ auth)]\<rparr>), s))
          else (Inr opts, s))"

text \<open>The body of the \<^verbatim>\<open>try\<close> (lines 54 to 109).\<close>

definition getAuthHeaders_try ::
  "env \<Rightarrow> string \<Rightarrow> string \<Rightarrow> state \<Rightarrow> (exn + headers nullable) \<times> state" where
  "getAuthHeaders_try env registryUrl dockerRepository s =
     (let apiCheckUrl = registryUrl @ ''/v2/'' in
      case http_get env apiCheckUrl (no_options\<lparr>opt_throwHttpErrors := Some False\<rparr>) s of
        (Inl err, s1) \<Rightarrow> (Inl err, s1)
      | (Inr apiCheckResponse, s1) \<Rightarrow>
          (case map_of (resp_headers apiCheckResponse) ''www-authenticate'' of
             None \<Rightarrow> (Inr (Defined []), s1)
           | Some header \<Rightarrow>
               (case WWW_Authenticate env header of
                  Inl err \<Rightarrow> (Inl err, s1)
                | Inr authenticateHeader \<Rightarrow>
                    (case getAuthHeaders_authorization env registryUrl
                            (options_of_rule (hostRules_find env apiCheckUrl)) s1 of
                       (Inl err, s2) \<Rightarrow> (Inl err, s2)
                     | (Inr opts0, s2) \<Rightarrow>
                         (let opts = opts0\<lparr>opt_username := None, opt_password := None\<rparr> in
                          if toUpperCase (scheme authenticateHeader) = ''BASIC'' then
                            (case http_get env apiCheckUrl opts s2 of
                               (Inl err, s3) \<Rightarrow> (Inl err, s3)
                             | (Inr verified, s3) \<Rightarrow>
                                 (Inr (case opt_headers opts of
                                         None \<Rightarrow> Undefined | Some h \<Rightarrow> Defined h), s3))
                          else
                            (let authUrl = String_of (parms_realm authenticateHeader)
                                   @ ''?service='' @ String_of (parms_service authenticateHeader)
                                   @ ''&scope=repository:'' @ dockerRepository @ '':pull''
                             in case http_getJson env authUrl opts s2 of
                                  (Inl err, s3) \<Rightarrow> (Inl err, s3)
                                | (Inr authResponse, s3) \<Rightarrow>
                                    (case js_member authResponse ''token'' of
                                       Inl err \<Rightarrow> (Inl err, s3)
                                     | Inr token0 \<Rightarrow>
                                         (case (if truthy token0 then Inr token0
                                                else js_member authResponse ''access_token'') of
                                            Inl err \<Rightarrow> (Inl err, s3)
                                          | Inr token \<Rightarrow>
                                              if \<not> truthy token then (Inr Null, s3)
                                              else
                                                (case js_ToString env token of
                                                   Inl err \<Rightarrow> (Inl err, s3)
                                                 | Inr t \<Rightarrow>
                                                     (Inr (Defined
                                                        [(''authorization'', ''Bearer '' @ t)]),
                                                      s3))))))))))"

text \<open>The \<^verbatim>\<open>catch\<close> (lines 110 to 151); the branches that only log return \<^verbatim>\<open>null\<close>.\<close>

definition getAuthHeaders_catch :: "env \<Rightarrow> string \<Rightarrow> exn \<Rightarrow> exn + headers nullable" where
  "getAuthHeaders_catch env registryUrl err =
     (if exn_host err = Some ''quay.io'' then Inr Null
      else if exn_statusCode err = Some 401 then Inr Null
      else if exn_statusCode err = Some 403 then Inr Null
      else if exn_name err = ''RequestError'' \<and> endsWith registryUrl ''docker.io''
        then Inl (ExternalHostError err)
      else if exn_statusCode err = Some 429 \<and> endsWith registryUrl ''docker.io''
        then Inl (ExternalHostError err)
      else if (case exn_statusCode err of None \<Rightarrow> False | Some c \<Rightarrow> 500 \<le> c \<and> c < 600)
        then Inl (ExternalHostError err)
      else if exn_message err = HOST_DISABLED env then Inr Null
      else Inr Null)"

definition getAuthHeaders ::
  "env \<Rightarrow> string \<Rightarrow> string \<Rightarrow> state \<Rightarrow> (exn + headers nullable) \<times> state" where
  "getAuthHeaders env registryUrl dockerRepository s =
     (case getAuthHeaders_try env registryUrl dockerRepository s of
        (Inl err, s1) \<Rightarrow> (getAuthHeaders_catch env registryUrl err, s1)
      | (Inr hdrs, s1) \<Rightarrow> (Inr hdrs, s1))"

subsection \<open>\<^verbatim>\<open>getRegistryRepository\<close>\<close>

record RegistryRepository =
  rr_registry :: string
  rr_repository :: string

definition getRegistryRepository :: "env \<Rightarrow> string \<Rightarrow> string \<Rightarrow> RegistryRepository" where
  "getRegistryRepository env lookupName registryUrl =
     (let registryEndingWithSlash = ensureTrailingSlash (strip_scheme registryUrl) in
      if registryUrl \<noteq> hd defaultRegistryUrls \<and> startsWith lookupName registryEndingWithSlash
      then
        (let registry0 = trimTrailingSlash registryUrl;
             registry1 = (if \<not> has_scheme registry0 then ''https://'' @ registry0 else registry0)
         in \<lparr>rr_registry = registry1,
             rr_repository = js_replace lookupName registryEndingWithSlash []\<rparr>)
      else
        (let split0 = js_split CHR ''/'' lookupName;
             hasHost = (length split0 > 1 \<and>
                        (js_includes (hd split0) CHR ''.'' \<or> js_includes (hd split0) CHR '':''));
             registry0 = (if hasHost then Some (hd split0) else None);
             split1 = (if hasHost then tl split0 else split0);
             repository0 = js_join ''/'' split1;
             registry1 = (if \<not> truthy_field registry0 then registryUrl else String_of registry0);
             registry2 = (if registry1 = ''docker.io'' then ''index.docker.io'' else registry1);
             registry3 = (if \<not> has_scheme registry2 then ''https://'' @ registry2 else registry2);
             opts = hostRules_find env registry3;
             registry4 = (if insecureRegistry opts = Some True
                          then js_replace registry3 ''https'' ''http'' else registry3);
             repository1 = (if endsWith registry4 ''.docker.io'' \<and> \<not> js_includes repository0 CHR ''/''
                            then ''library/'' @ repository0 else repository0)
         in \<lparr>rr_registry = registry4, rr_repository = repository1\<rparr>))"

subsection \<open>\<^verbatim>\<open>getManifestResponse\<close>\<close>

text \<open>The body of the \<^verbatim>\<open>try\<close> (lines 223 to 234); \<open>tagStr\<close> is \<^verbatim>\<open>`${tag}`\<close>.\<close>

definition getManifestResponse_try ::
  "env \<Rightarrow> string \<Rightarrow> string \<Rightarrow> string \<Rightarrow> state \<Rightarrow> (exn + response option) \<times> state" where
  "getManifestResponse_try env registryUrl dockerRepository tagStr s =
     (case getAuthHeaders env registryUrl dockerRepository s of
        (Inl err, s1) \<Rightarrow> (Inl err, s1)
      | (Inr Undefined, s1) \<Rightarrow> (Inr None, s1)
      | (Inr Null, s1) \<Rightarrow> (Inr None, s1)
      | (Inr (Defined hdrs), s1) \<Rightarrow>
          (let hdrs1 = AList.update ''accept''
                 (manifestListV2 @ '', '' @ manifestV2) hdrs;
               url = registryUrl @ ''/v2/'' @ dockerRepository @ ''/manifests/'' @ tagStr
           in case http_get env url (no_options\<lparr>opt_headers := Some hdrs1\<rparr>) s1 of
                (Inl err, s2) \<Rightarrow> (Inl err, s2)
              | (Inr manifestResponse, s2) \<Rightarrow> (Inr (Some manifestResponse), s2)))"

text \<open>The \<^verbatim>\<open>catch\<close> (lines 235 to 284).\<close>

definition getManifestResponse_catch :: "string \<Rightarrow> exn \<Rightarrow> exn + response option" where
  "getManifestResponse_catch registryUrl err =
     (if instanceof_ExternalHostError err then Inl err
      else if exn_statusCode err = Some 401 then Inr None
      else if exn_statusCode err = Some 404 then Inr None
      else if exn_statusCode err = Some 429 \<and> endsWith registryUrl ''docker.io''
        then Inl (ExternalHostError err)
      else if (case exn_statusCode err of None \<Rightarrow> False | Some c \<Rightarrow> 500 \<le> c \<and> c < 600)
        then Inl (ExternalHostError err)
      else if exn_code err = Some ''ETIMEDOUT'' then Inr None
      else Inr None)"

text \<open>
  The tag is a string for the callers of the module, and whatever the manifest list holds
  in the recursion of \<^verbatim>\<open>getConfigDigest\<close>. Line 221 converts it to a string for the log,
  before the \<^verbatim>\<open>try\<close>.
\<close>

definition getManifestResponse ::
  "env \<Rightarrow> string \<Rightarrow> string \<Rightarrow> js \<Rightarrow> state \<Rightarrow> (exn + response option) \<times> state" where
  "getManifestResponse env registryUrl dockerRepository tagv s =
     (case js_ToString env tagv of
        Inl err \<Rightarrow> (Inl err, s)
      | Inr tagStr \<Rightarrow>
          (case getManifestResponse_try env registryUrl dockerRepository tagStr s of
             (Inl err, s1) \<Rightarrow> (getManifestResponse_catch registryUrl err, s1)
           | (Inr r, s1) \<Rightarrow> (Inr r, s1)))"

subsection \<open>\<^verbatim>\<open>getConfigDigest\<close>\<close>

text \<open>
  Lines 313 to 316, the condition
  \<^verbatim>\<open>manifest.mediaType === MediaType.manifestListV2 && manifest.manifests.length\<close>.
\<close>

definition manifest_list_condition :: "js \<Rightarrow> exn + bool" where
  "manifest_list_condition manifest =
     (case js_member manifest ''mediaType'' of
        Inl err \<Rightarrow> Inl err
      | Inr mediaType \<Rightarrow>
          if mediaType \<noteq> JStr manifestListV2 then Inr False
          else
            (case js_member manifest ''manifests'' of
               Inl err \<Rightarrow> Inl err
             | Inr manifests \<Rightarrow>
                 (case js_member manifests ''length'' of
                    Inl err \<Rightarrow> Inl err
                  | Inr len \<Rightarrow> Inr (truthy len))))"

text \<open>Line 324, \<^verbatim>\<open>manifest.manifests[0].digest\<close>.\<close>

definition first_manifest_digest :: "js \<Rightarrow> exn + js" where
  "first_manifest_digest manifest =
     (case js_member manifest ''manifests'' of
        Inl err \<Rightarrow> Inl err
      | Inr manifests \<Rightarrow>
          (case js_member manifests ''0'' of
             Inl err \<Rightarrow> Inl err
           | Inr first \<Rightarrow> js_member first ''digest''))"

text \<open>Lines 328 to 333.\<close>

definition single_manifest_digest :: "js \<Rightarrow> exn + js" where
  "single_manifest_digest manifest =
     (case js_member manifest ''mediaType'' of
        Inl err \<Rightarrow> Inl err
      | Inr mediaType \<Rightarrow>
          if mediaType = JStr manifestV2 then
            (case js_member manifest ''config'' of
               Inl err \<Rightarrow> Inl err
             | Inr config \<Rightarrow>
                 (let digest = js_optional config ''digest''
                  in Inr (if truthy digest then digest else JNull)))
          else Inr JNull)"

text \<open>
  The function has no \<^verbatim>\<open>try\<close>: every exception leaves it. The recursion on a manifest
  list is not bounded, so the result is optional: \<open>None\<close> is a call that never returns.
\<close>

partial_function (option) getConfigDigest ::
  "env \<Rightarrow> string \<Rightarrow> string \<Rightarrow> js \<Rightarrow> state \<Rightarrow> ((exn + js) \<times> state) option" where
  "getConfigDigest env registryUrl dockerRepository tagv s =
     (case getManifestResponse env registryUrl dockerRepository tagv s of
        (Inl err, s1) \<Rightarrow> Some (Inl err, s1)
      | (Inr None, s1) \<Rightarrow> Some (Inr JNull, s1)
      | (Inr (Some manifestResponse), s1) \<Rightarrow>
          (case JSON_parse env (resp_body manifestResponse) of
             Inl err \<Rightarrow> Some (Inl err, s1)
           | Inr manifest \<Rightarrow>
               (case js_member manifest ''schemaVersion'' of
                  Inl err \<Rightarrow> Some (Inl err, s1)
                | Inr schemaVersion \<Rightarrow>
                    if schemaVersion \<noteq> JNum (Finite 2) then Some (Inr JNull, s1)
                    else
                      (case manifest_list_condition manifest of
                         Inl err \<Rightarrow> Some (Inl err, s1)
                       | Inr isList \<Rightarrow>
                           if isList then
                             (case first_manifest_digest manifest of
                                Inl err \<Rightarrow> Some (Inl err, s1)
                              | Inr digest \<Rightarrow>
                                  getConfigDigest env registryUrl dockerRepository digest s1)
                           else
                             (case single_manifest_digest manifest of
                                Inl err \<Rightarrow> Some (Inl err, s1)
                              | Inr digest \<Rightarrow> Some (Inr digest, s1))))))"

declare getConfigDigest.simps [code]

subsection \<open>\<^verbatim>\<open>getLabels\<close>\<close>

text \<open>The body of the \<^verbatim>\<open>try\<close> (lines 360 to 388).\<close>

definition getLabels_try ::
  "env \<Rightarrow> string \<Rightarrow> string \<Rightarrow> string \<Rightarrow> string \<Rightarrow> string \<Rightarrow> state
     \<Rightarrow> ((exn + js) \<times> state) option" where
  "getLabels_try env registryUrl dockerRepository tagStr cacheNamespace cacheKey s =
     (case getConfigDigest env registryUrl dockerRepository (JStr tagStr) s of
        None \<Rightarrow> None
      | Some (Inl err, s1) \<Rightarrow> Some (Inl err, s1)
      | Some (Inr configDigest, s1) \<Rightarrow>
          if \<not> truthy configDigest then Some (Inr (JObj []), s1)
          else
            (case getAuthHeaders env registryUrl dockerRepository s1 of
               (Inl err, s2) \<Rightarrow> Some (Inl err, s2)
             | (Inr Undefined, s2) \<Rightarrow> Some (Inr (JObj []), s2)
             | (Inr Null, s2) \<Rightarrow> Some (Inr (JObj []), s2)
             | (Inr (Defined hdrs), s2) \<Rightarrow>
                 (case js_ToString env configDigest of
                    Inl err \<Rightarrow> Some (Inl err, s2)
                  | Inr digestStr \<Rightarrow>
                      (let url = registryUrl @ ''/v2/'' @ dockerRepository @ ''/blobs/''
                             @ digestStr
                       in case http_get env url (no_options\<lparr>opt_headers := Some hdrs\<rparr>) s2 of
                            (Inl err, s3) \<Rightarrow> Some (Inl err, s3)
                          | (Inr configResponse, s3) \<Rightarrow>
                              (case JSON_parse env (resp_body configResponse) of
                                 Inl err \<Rightarrow> Some (Inl err, s3)
                               | Inr body \<Rightarrow>
                                   (case js_member body ''config'' of
                                      Inl err \<Rightarrow> Some (Inl err, s3)
                                    | Inr config \<Rightarrow>
                                        (case js_member config ''Labels'' of
                                           Inl err \<Rightarrow> Some (Inl err, s3)
                                         | Inr labels \<Rightarrow>
                                             (let cacheMinutes = 60 in
                                              Some (Inr labels,
                                                packageCache_set cacheNamespace cacheKey labels
                                                  cacheMinutes s3)))))))))"

text \<open>
  The \<^verbatim>\<open>catch\<close> (lines 389 to 440): an \<^verbatim>\<open>ExternalHostError\<close> is thrown again; every other
  branch logs and falls through to \<^verbatim>\<open>return {}\<close>.
\<close>

definition getLabels_catch :: "string \<Rightarrow> exn \<Rightarrow> exn + js" where
  "getLabels_catch registryUrl err =
     (if instanceof_ExternalHostError err then Inl err
      else if exn_statusCode err = Some 400 \<or> exn_statusCode err = Some 401 then Inr (JObj [])
      else if exn_statusCode err = Some 404 then Inr (JObj [])
      else if exn_statusCode err = Some 429 \<and> endsWith registryUrl ''docker.io''
        then Inr (JObj [])
      else if (case exn_statusCode err of None \<Rightarrow> False | Some c \<Rightarrow> 500 \<le> c \<and> c < 600)
        then Inr (JObj [])
      else if exn_code err = Some ''ERR_TLS_CERT_ALTNAME_INVALID''
              \<or> exn_code err = Some ''ETIMEDOUT'' then Inr (JObj [])
      else if registryUrl = ''https://quay.io'' then Inr (JObj [])
      else Inr (JObj []))"

definition getLabels ::
  "env \<Rightarrow> string \<Rightarrow> string \<Rightarrow> string \<Rightarrow> state \<Rightarrow> ((exn + js) \<times> state) option" where
  "getLabels env registryUrl dockerRepository tagStr s =
     (let cacheNamespace = ''datasource-docker-labels'';
          cacheKey = registryUrl @ '':'' @ dockerRepository @ '':'' @ tagStr;
          cachedResult = packageCache_get s cacheNamespace cacheKey
      in if cachedResult \<noteq> JUndefined then Some (Inr cachedResult, s)
         else
           (case getLabels_try env registryUrl dockerRepository tagStr cacheNamespace cacheKey s of
              None \<Rightarrow> None
            | Some (Inl err, s1) \<Rightarrow> Some (getLabels_catch registryUrl err, s1)
            | Some (Inr labels, s1) \<Rightarrow> Some (Inr labels, s1)))"

section \<open>Registries to run the module against\<close>

text \<open>
  A registry given by tables: the response of each URL, the parsed challenge of each
  \<^verbatim>\<open>www-authenticate\<close> header and the parsed value of each JSON text. As the HTTP client
  does, it raises an error carrying the status for a response of status 400 and above,
  unless the request says \<^verbatim>\<open>throwHttpErrors: false\<close>. No host rule is configured.
\<close>

definition http_error :: "int \<Rightarrow> exn" where
  "http_error status = Err \<lparr>err_name = ''HTTPError'', err_message = ''Response code'',
     err_statusCode = Some status, err_code = None, err_host = None\<rparr>"

definition SyntaxError :: exn where
  "SyntaxError = Err \<lparr>err_name = ''SyntaxError'', err_message = ''Unexpected token'',
     err_statusCode = None, err_code = None, err_host = None\<rparr>"

definition table_get ::
  "(string \<times> response) list \<Rightarrow> string \<Rightarrow> http_options \<Rightarrow> exn + response" where
  "table_get routes url opts =
     (case map_of routes url of
        None \<Rightarrow> Inl (http_error 404)
      | Some r \<Rightarrow>
          if 400 \<le> resp_statusCode r \<and> opt_throwHttpErrors opts \<noteq> Some False
          then Inl (http_error (resp_statusCode r)) else Inr r)"

definition table_parse :: "(string \<times> js) list \<Rightarrow> string \<Rightarrow> exn + js" where
  "table_parse documents body =
     (case map_of documents body of None \<Rightarrow> Inl SyntaxError | Some v \<Rightarrow> Inr v)"

definition table_env ::
  "(string \<times> response) list \<Rightarrow> (string \<times> challenge) list \<Rightarrow> (string \<times> js) list \<Rightarrow> env" where
  "table_env routes challenges documents =
     \<lparr>http_get_impl = (\<lambda>log url opts. table_get routes url opts),
      http_getJson_impl = (\<lambda>log url opts.
        case table_get routes url opts of
          Inl err \<Rightarrow> Inl err
        | Inr r \<Rightarrow> table_parse documents (resp_body r)),
      hostRules_find = (\<lambda>url. \<lparr>username = None, password = None, insecureRegistry = None\<rparr>),
      ecr_getAuthorizationToken = (\<lambda>log config. Inl (http_error 403)),
      WWW_Authenticate = (\<lambda>header.
        case map_of challenges header of None \<Rightarrow> Inl TypeError | Some c \<Rightarrow> Inr c),
      JSON_parse = table_parse documents,
      base64 = (\<lambda>s. s),
      ToString_object = (\<lambda>v. Inr ''[object Object]''),
      HOST_DISABLED = ''host-disabled''\<rparr>"

definition respond :: "int \<Rightarrow> headers \<Rightarrow> string \<Rightarrow> response" where
  "respond status hdrs body = \<lparr>resp_body = body, resp_headers = hdrs, resp_statusCode = status\<rparr>"

definition initial_state :: state where
  "initial_state = \<lparr>requests = [], cache = Map.empty, clock = 0\<rparr>"

text \<open>The JSON texts of the examples, and their values.\<close>

definition list_json :: string where
  \<open>list_json = ''{"schemaVersion":2,"mediaType":"application/vnd.docker.distribution.manifest.list.v2+json","manifests":[{"digest":"sha256:first"}]}''\<close>

definition image_json :: string where
  \<open>image_json = ''{"schemaVersion":2,"mediaType":"application/vnd.docker.distribution.manifest.v2+json","config":{"digest":"sha256:abc"}}''\<close>

definition list_without_manifests_json :: string where
  \<open>list_without_manifests_json = ''{"schemaVersion":2,"mediaType":"application/vnd.docker.distribution.manifest.list.v2+json"}''\<close>

definition schema1_json :: string where
  \<open>schema1_json = ''{"schemaVersion":1,"name":"library/node"}''\<close>

definition config_without_labels_json :: string where
  \<open>config_without_labels_json = ''{"config":{}}''\<close>

definition config_empty_labels_json :: string where
  \<open>config_empty_labels_json = ''{"config":{"Labels":{}}}''\<close>

definition token_json :: string where
  \<open>token_json = ''{"token":"tok"}''\<close>

definition documents :: "(string \<times> js) list" where
  "documents =
     [(list_json, JObj [(''schemaVersion'', JNum (Finite 2)),
         (''mediaType'', JStr manifestListV2),
         (''manifests'', JArr [JObj [(''digest'', JStr ''sha256:first'')]])]),
      (image_json, JObj [(''schemaVersion'', JNum (Finite 2)),
         (''mediaType'', JStr manifestV2),
         (''config'', JObj [(''digest'', JStr ''sha256:abc'')])]),
      (list_without_manifests_json, JObj [(''schemaVersion'', JNum (Finite 2)),
         (''mediaType'', JStr manifestListV2)]),
      (schema1_json, JObj [(''schemaVersion'', JNum (Finite 1)),
         (''name'', JStr ''library/node'')]),
      (config_without_labels_json, JObj [(''config'', JObj [])]),
      (config_empty_labels_json, JObj [(''config'', JObj [(''Labels'', JObj [])])]),
      (token_json, JObj [(''token'', JStr ''tok'')])]"

text \<open>
  Docker Hub answering without a challenge. \<^verbatim>\<open>library/node:latest\<close> is a manifest list
  whose first entry is an image with the configuration \<^verbatim>\<open>sha256:abc\<close>, which has no
  \<^verbatim>\<open>Labels\<close>; \<^verbatim>\<open>library/alpine\<close> is an image whose configuration has empty labels;
  \<^verbatim>\<open>library/broken\<close> is a manifest list without \<^verbatim>\<open>manifests\<close>; \<^verbatim>\<open>library/old\<close> has a
  manifest of schema version 1.
\<close>

definition hub_env :: env where
  "hub_env = table_env
     [(''https://index.docker.io/v2/'', respond 200 [] []),
      (''https://index.docker.io/v2/library/node/manifests/latest'', respond 200 [] list_json),
      (''https://index.docker.io/v2/library/node/manifests/sha256:first'',
         respond 200 [] image_json),
      (''https://index.docker.io/v2/library/node/blobs/sha256:abc'',
         respond 200 [] config_without_labels_json),
      (''https://index.docker.io/v2/library/alpine/manifests/latest'',
         respond 200 [] image_json),
      (''https://index.docker.io/v2/library/alpine/blobs/sha256:abc'',
         respond 200 [] config_empty_labels_json),
      (''https://index.docker.io/v2/library/broken/manifests/latest'',
         respond 200 [] list_without_manifests_json),
      (''https://index.docker.io/v2/library/old/manifests/latest'',
         respond 200 [] schema1_json)]
     [] documents"

text \<open>
  A registry with a token service. The token service is down for \<^verbatim>\<open>team/down\<close>; for
  \<^verbatim>\<open>team/app\<close> it gives a token, \<^verbatim>\<open>latest\<close> is a manifest list, and the registry fails on
  the manifest of its first entry.
\<close>

definition bearer_header :: string where
  \<open>bearer_header = ''Bearer realm="https://auth.example.com/token",service="registry.example.com"''\<close>

definition bearer_challenge :: challenge where
  "bearer_challenge = \<lparr>scheme = ''Bearer'',
     parms_realm = Some ''https://auth.example.com/token'',
     parms_service = Some ''registry.example.com''\<rparr>"

definition bearer_env :: env where
  "bearer_env = table_env
     [(''https://registry.example.com/v2/'',
         respond 401 [(''www-authenticate'', bearer_header)] []),
      (''https://auth.example.com/token?service=registry.example.com&scope=repository:team/down:pull'',
         respond 503 [] []),
      (''https://auth.example.com/token?service=registry.example.com&scope=repository:team/app:pull'',
         respond 200 [] token_json),
      (''https://registry.example.com/v2/team/app/manifests/latest'', respond 200 [] list_json),
      (''https://registry.example.com/v2/team/app/manifests/sha256:first'', respond 503 [] [])]
     [(bearer_header, bearer_challenge)] documents"

text \<open>
  Docker Hub as \<open>hub_env\<close> has it, on a network that fails from the third request on.
\<close>

definition RequestError :: exn where
  "RequestError = Err \<lparr>err_name = ''RequestError'', err_message = ''socket hang up'',
     err_statusCode = None, err_code = Some ''ECONNRESET'', err_host = None\<rparr>"

definition flaky_env :: env where
  "flaky_env = hub_env\<lparr>http_get_impl :=
     (\<lambda>log url opts. if 2 \<le> length log then Inl RequestError
                      else http_get_impl hub_env log url opts)\<rparr>"

text \<open>Docker Hub as \<open>hub_env\<close> has it, with a host rule that marks every registry insecure.\<close>

definition insecure_env :: env where
  "insecure_env = hub_env\<lparr>hostRules_find :=
     (\<lambda>url. \<lparr>username = None, password = None, insecureRegistry = Some True\<rparr>)\<rparr>"

text \<open>
  Two registries with a Basic challenge and no host rule: \<^verbatim>\<open>registry.example.com\<close> answers
  401 to a request without credentials, \<^verbatim>\<open>mirror.example.com\<close> sends the challenge and
  serves the request all the same.
\<close>

definition basic_header :: string where
  \<open>basic_header = ''Basic realm="Registry"''\<close>

definition mirror_header :: string where
  \<open>mirror_header = ''basic realm="Mirror"''\<close>

definition basic_env :: env where
  "basic_env = table_env
     [(''https://registry.example.com/v2/'',
         respond 401 [(''www-authenticate'', basic_header)] []),
      (''https://mirror.example.com/v2/'',
         respond 200 [(''www-authenticate'', mirror_header)] [])]
     [(basic_header,
         \<lparr>scheme = ''Basic'', parms_realm = Some ''Registry'', parms_service = None\<rparr>),
      (mirror_header,
         \<lparr>scheme = ''basic'', parms_realm = Some ''Mirror'', parms_service = None\<rparr>)]
     documents"

text \<open>
  Registries that answer some requests with a given status, 429 or one of 5xx. Docker Hub
  sends a Bearer challenge; its token service fails for \<^verbatim>\<open>library/limited\<close>, the registry
  fails on the manifest of \<^verbatim>\<open>library/node\<close> and on the configuration blob of
  \<^verbatim>\<open>library/busy\<close>. \<^verbatim>\<open>registry.example.com\<close> answers every request with the status and no
  challenge. \<^verbatim>\<open>mydocker.io\<close> needs no authentication and fails on the manifest.
\<close>

definition hub_header :: string where
  \<open>hub_header = ''Bearer realm="https://auth.docker.io/token",service="registry.docker.io"''\<close>

definition hub_challenge :: challenge where
  "hub_challenge = \<lparr>scheme = ''Bearer'',
     parms_realm = Some ''https://auth.docker.io/token'',
     parms_service = Some ''registry.docker.io''\<rparr>"

definition status_env :: "int \<Rightarrow> env" where
  "status_env status = table_env
     [(''https://index.docker.io/v2/'', respond 401 [(''www-authenticate'', hub_header)] []),
      (''https://auth.docker.io/token?service=registry.docker.io&scope=repository:library/limited:pull'',
         respond status [] []),
      (''https://auth.docker.io/token?service=registry.docker.io&scope=repository:library/node:pull'',
         respond 200 [] token_json),
      (''https://index.docker.io/v2/library/node/manifests/latest'', respond status [] []),
      (''https://auth.docker.io/token?service=registry.docker.io&scope=repository:library/busy:pull'',
         respond 200 [] token_json),
      (''https://index.docker.io/v2/library/busy/manifests/latest'', respond 200 [] image_json),
      (''https://index.docker.io/v2/library/busy/blobs/sha256:abc'', respond status [] []),
      (''https://registry.example.com/v2/'', respond status [] []),
      (''https://registry.example.com/v2/team/app/manifests/latest'', respond status [] []),
      (''https://mydocker.io/v2/'', respond 200 [] []),
      (''https://mydocker.io/v2/team/app/manifests/latest'', respond status [] [])]
     [(hub_header, hub_challenge)] documents"

section \<open>Properties\<close>

subsection \<open>One step of \<^verbatim>\<open>getConfigDigest\<close>\<close>

lemma pair_of_fst: "fst p = a \<Longrightarrow> p = (a, snd p)"
  by (cases p) simp

lemma option_pair_of_fst: "map_option fst x = Some a \<Longrightarrow> x = Some (a, snd (the x))"
  by (cases x) auto

lemma getConfigDigest_raise:
  "getManifestResponse env r d tagv s = (Inl err, s1) \<Longrightarrow>
   getConfigDigest env r d tagv s = Some (Inl err, s1)"
  by (subst getConfigDigest.simps) simp

lemma getConfigDigest_schema:
  "getManifestResponse env r d tagv s = (Inr (Some resp), s1) \<Longrightarrow>
   JSON_parse env (resp_body resp) = Inr manifest \<Longrightarrow>
   js_member manifest ''schemaVersion'' = Inr v \<Longrightarrow>
   v \<noteq> JNum (Finite 2) \<Longrightarrow>
   getConfigDigest env r d tagv s = Some (Inr JNull, s1)"
  by (subst getConfigDigest.simps) simp

lemma getConfigDigest_list:
  "getManifestResponse env r d tagv s = (Inr (Some resp), s1) \<Longrightarrow>
   JSON_parse env (resp_body resp) = Inr manifest \<Longrightarrow>
   js_member manifest ''schemaVersion'' = Inr (JNum (Finite 2)) \<Longrightarrow>
   manifest_list_condition manifest = Inr True \<Longrightarrow>
   first_manifest_digest manifest = Inr digest \<Longrightarrow>
   getConfigDigest env r d tagv s = getConfigDigest env r d digest s1"
  by (subst getConfigDigest.simps) simp

lemma getConfigDigest_single:
  "getManifestResponse env r d tagv s = (Inr (Some resp), s1) \<Longrightarrow>
   JSON_parse env (resp_body resp) = Inr manifest \<Longrightarrow>
   js_member manifest ''schemaVersion'' = Inr (JNum (Finite 2)) \<Longrightarrow>
   manifest_list_condition manifest = Inr False \<Longrightarrow>
   single_manifest_digest manifest = Inr digest \<Longrightarrow>
   getConfigDigest env r d tagv s = Some (Inr digest, s1)"
  by (subst getConfigDigest.simps) simp

lemma manifest_list_condition_array:
  "js_member manifest ''mediaType'' = Inr (JStr manifestListV2) \<Longrightarrow>
   js_member manifest ''manifests'' = Inr (JArr (first # others)) \<Longrightarrow>
   manifest_list_condition manifest = Inr True"
  by (simp add: manifest_list_condition_def js_member_def nullish_def)

lemma first_manifest_digest_array:
  "js_member manifest ''manifests'' = Inr (JArr (first # others)) \<Longrightarrow>
   js_member first ''digest'' = Inr digest \<Longrightarrow>
   first_manifest_digest manifest = Inr digest"
  by (simp add: first_manifest_digest_def js_member_def nullish_def)

lemma manifestV2_not_list: "manifestV2 \<noteq> manifestListV2"
  by (simp add: manifestV2_def manifestListV2_def)

lemma manifest_list_condition_single:
  "js_member manifest ''mediaType'' = Inr (JStr manifestV2) \<Longrightarrow>
   manifest_list_condition manifest = Inr False"
  by (simp add: manifest_list_condition_def manifestV2_not_list)

subsection \<open>The manifest list\<close>

text \<open>
  Claim C6. When the manifest response parses to a manifest list of schema version 2
  whose \<^verbatim>\<open>manifests\<close> array has a first entry, \<^verbatim>\<open>getConfigDigest\<close> is the recursive call
  with the digest of that first entry as the tag, from the state the fetch left. If that
  call fetches a single-image manifest whose \<^verbatim>\<open>config.digest\<close> is \<^verbatim>\<open>sha256:abc\<close>, the
  result is \<^verbatim>\<open>sha256:abc\<close>.
\<close>

theorem getConfigDigest_manifest_list:
  assumes "getManifestResponse env r d tagv s = (Inr (Some resp), s1)"
    and "JSON_parse env (resp_body resp) = Inr manifest"
    and "js_member manifest ''schemaVersion'' = Inr (JNum (Finite 2))"
    and "js_member manifest ''mediaType'' = Inr (JStr manifestListV2)"
    and "js_member manifest ''manifests'' = Inr (JArr (first # others))"
    and "js_member first ''digest'' = Inr digest"
  shows "getConfigDigest env r d tagv s = getConfigDigest env r d digest s1
    \<and> (getManifestResponse env r d digest s1 = (Inr (Some resp2), s2)
        \<and> JSON_parse env (resp_body resp2) = Inr imageManifest
        \<and> js_member imageManifest ''schemaVersion'' = Inr (JNum (Finite 2))
        \<and> js_member imageManifest ''mediaType'' = Inr (JStr manifestV2)
        \<and> js_member imageManifest ''config'' = Inr config
        \<and> js_optional config ''digest'' = JStr ''sha256:abc''
        \<longrightarrow> getConfigDigest env r d tagv s = Some (Inr (JStr ''sha256:abc''), s2))"
proof -
  have step: "getConfigDigest env r d tagv s = getConfigDigest env r d digest s1"
    using assms
    by (intro getConfigDigest_list manifest_list_condition_array first_manifest_digest_array)
  have inner: "getConfigDigest env r d digest s1 = Some (Inr (JStr ''sha256:abc''), s2)"
    if "getManifestResponse env r d digest s1 = (Inr (Some resp2), s2)"
      and "JSON_parse env (resp_body resp2) = Inr imageManifest"
      and "js_member imageManifest ''schemaVersion'' = Inr (JNum (Finite 2))"
      and "js_member imageManifest ''mediaType'' = Inr (JStr manifestV2)"
      and "js_member imageManifest ''config'' = Inr config"
      and "js_optional config ''digest'' = JStr ''sha256:abc''"
  proof -
    have "single_manifest_digest imageManifest = Inr (JStr ''sha256:abc'')"
      using that(4-6) by (simp add: single_manifest_digest_def)
    with that show ?thesis
      by (intro getConfigDigest_single manifest_list_condition_single)
  qed
  from step inner show ?thesis by simp
qed

text \<open>
  On Docker Hub as \<open>hub_env\<close> has it, \<^verbatim>\<open>library/node:latest\<close> resolves through the list
  to \<^verbatim>\<open>sha256:abc\<close>, after the two fetches.
\<close>

theorem getConfigDigest_manifest_list_witness:
  "getConfigDigest hub_env ''https://index.docker.io'' ''library/node'' (JStr ''latest'')
       initial_state
     = Some (Inr (JStr ''sha256:abc''),
         snd (getManifestResponse hub_env ''https://index.docker.io'' ''library/node''
                (JStr ''sha256:first'')
                (snd (getManifestResponse hub_env ''https://index.docker.io'' ''library/node''
                        (JStr ''latest'') initial_state))))"
proof -
  let ?s1 = "snd (getManifestResponse hub_env ''https://index.docker.io'' ''library/node''
                    (JStr ''latest'') initial_state)"
  let ?s2 = "snd (getManifestResponse hub_env ''https://index.docker.io'' ''library/node''
                    (JStr ''sha256:first'') ?s1)"
  let ?entry = "JObj [(''digest'', JStr ''sha256:first'')]"
  let ?list = "JObj [(''schemaVersion'', JNum (Finite 2)), (''mediaType'', JStr manifestListV2),
                 (''manifests'', JArr [?entry])]"
  let ?config = "JObj [(''digest'', JStr ''sha256:abc'')]"
  let ?image = "JObj [(''schemaVersion'', JNum (Finite 2)), (''mediaType'', JStr manifestV2),
                  (''config'', ?config)]"
  have "fst (getManifestResponse hub_env ''https://index.docker.io'' ''library/node''
               (JStr ''latest'') initial_state) = Inr (Some (respond 200 [] list_json))"
    by code_simp
  then have fetch1: "getManifestResponse hub_env ''https://index.docker.io'' ''library/node''
      (JStr ''latest'') initial_state = (Inr (Some (respond 200 [] list_json)), ?s1)"
    by (rule pair_of_fst)
  have parse1: "JSON_parse hub_env (resp_body (respond 200 [] list_json)) = Inr ?list"
    by code_simp
  have schema1: "js_member ?list ''schemaVersion'' = Inr (JNum (Finite 2))"
    by code_simp
  have media1: "js_member ?list ''mediaType'' = Inr (JStr manifestListV2)"
    by code_simp
  have entries: "js_member ?list ''manifests'' = Inr (JArr (?entry # []))"
    by code_simp
  have digest: "js_member ?entry ''digest'' = Inr (JStr ''sha256:first'')"
    by code_simp
  have "fst (getManifestResponse hub_env ''https://index.docker.io'' ''library/node''
               (JStr ''sha256:first'') ?s1) = Inr (Some (respond 200 [] image_json))"
    by code_simp
  then have fetch2: "getManifestResponse hub_env ''https://index.docker.io'' ''library/node''
      (JStr ''sha256:first'') ?s1 = (Inr (Some (respond 200 [] image_json)), ?s2)"
    by (rule pair_of_fst)
  have parse2: "JSON_parse hub_env (resp_body (respond 200 [] image_json)) = Inr ?image"
    by code_simp
  have schema2: "js_member ?image ''schemaVersion'' = Inr (JNum (Finite 2))"
    by code_simp
  have media2: "js_member ?image ''mediaType'' = Inr (JStr manifestV2)"
    by code_simp
  have config: "js_member ?image ''config'' = Inr ?config"
    by code_simp
  have abc: "js_optional ?config ''digest'' = JStr ''sha256:abc''"
    by code_simp
  from getConfigDigest_manifest_list [OF fetch1 parse1 schema1 media1 entries digest,
      of "respond 200 [] image_json" ?s2 ?image ?config]
    fetch2 parse2 schema2 media2 config abc
  show ?thesis by blast
qed

subsection \<open>The schema version\<close>

text \<open>
  Claim C8. When the manifest response parses to a value whose \<^verbatim>\<open>schemaVersion\<close> is not
  the number 2, \<^verbatim>\<open>getConfigDigest\<close> returns \<^verbatim>\<open>null\<close>: it returns, and raises nothing.
\<close>

theorem getConfigDigest_schemaVersion:
  assumes "getManifestResponse env r d tagv s = (Inr (Some resp), s1)"
    and "JSON_parse env (resp_body resp) = Inr manifest"
    and "js_member manifest ''schemaVersion'' = Inr v"
    and "v \<noteq> JNum (Finite 2)"
  shows "getConfigDigest env r d tagv s = Some (Inr JNull, s1)"
  using assms by (rule getConfigDigest_schema)

theorem getConfigDigest_schemaVersion_witness:
  "getConfigDigest hub_env ''https://index.docker.io'' ''library/old'' (JStr ''latest'')
       initial_state
     = Some (Inr JNull,
         snd (getManifestResponse hub_env ''https://index.docker.io'' ''library/old''
                (JStr ''latest'') initial_state))"
proof -
  let ?manifest = "JObj [(''schemaVersion'', JNum (Finite 1)), (''name'', JStr ''library/node'')]"
  have "fst (getManifestResponse hub_env ''https://index.docker.io'' ''library/old''
               (JStr ''latest'') initial_state) = Inr (Some (respond 200 [] schema1_json))"
    by code_simp
  then have fetch: "getManifestResponse hub_env ''https://index.docker.io'' ''library/old''
       (JStr ''latest'') initial_state
     = (Inr (Some (respond 200 [] schema1_json)),
        snd (getManifestResponse hub_env ''https://index.docker.io'' ''library/old''
               (JStr ''latest'') initial_state))"
    by (rule pair_of_fst)
  have parse: "JSON_parse hub_env (resp_body (respond 200 [] schema1_json)) = Inr ?manifest"
    by code_simp
  have version: "js_member ?manifest ''schemaVersion'' = Inr (JNum (Finite 1))"
    by code_simp
  have differs: "JNum (Finite 1) \<noteq> JNum (Finite 2)"
    by simp
  show ?thesis
    using getConfigDigest_schemaVersion [OF fetch parse version differs] .
qed

subsection \<open>The label cache\<close>

text \<open>
  Claim C7. When the cache holds a value (an empty mapping included) for the key
  \<^verbatim>\<open>registry:repository:tag\<close> in the namespace \<^verbatim>\<open>datasource-docker-labels\<close> and the entry
  has not expired, \<^verbatim>\<open>getLabels\<close> returns that value and leaves the state as it is: no
  request is issued and the cache is not written.
\<close>

theorem getLabels_cache_hit:
  assumes "cache s (''datasource-docker-labels'', r @ '':'' @ d @ '':'' @ t) = Some (v, expires)"
    and "clock s < expires"
    and "v \<noteq> JUndefined"
  shows "getLabels env r d t s = Some (Inr v, s)"
  using assms by (simp add: getLabels_def packageCache_get_def)

text \<open>
  A first call for \<^verbatim>\<open>library/alpine:latest\<close> stores the empty labels for 60 minutes; 59
  minutes later a second call returns them from the cache.
\<close>

theorem getLabels_cache_hit_witness:
  "getLabels hub_env ''https://index.docker.io'' ''library/alpine'' ''latest''
     ((snd (the (getLabels hub_env ''https://index.docker.io'' ''library/alpine'' ''latest''
                   initial_state)))\<lparr>clock := 59\<rparr>)
   = Some (Inr (JObj []),
       (snd (the (getLabels hub_env ''https://index.docker.io'' ''library/alpine'' ''latest''
                    initial_state)))\<lparr>clock := 59\<rparr>)"
proof -
  let ?later = "(snd (the (getLabels hub_env ''https://index.docker.io'' ''library/alpine''
                             ''latest'' initial_state)))\<lparr>clock := 59\<rparr>"
  have stored: "cache ?later (''datasource-docker-labels'',
      ''https://index.docker.io'' @ '':'' @ ''library/alpine'' @ '':'' @ ''latest'')
      = Some (JObj [], 60)"
    by code_simp
  have fresh: "clock ?later < 60"
    by code_simp
  have mapping: "JObj [] \<noteq> JUndefined"
    by simp
  show ?thesis
    using getLabels_cache_hit [OF stored fresh mapping] .
qed

subsection \<open>Host-fatal errors of inner calls\<close>

lemma getManifestResponse_auth_raises:
  "getAuthHeaders env r d s = (Inl (ExternalHostError x), s1) \<Longrightarrow>
   js_ToString env tagv = Inr t \<Longrightarrow>
   getManifestResponse env r d tagv s = (Inl (ExternalHostError x), s1)"
  by (simp add: getManifestResponse_def getManifestResponse_try_def getManifestResponse_catch_def)

lemma getLabels_digest_raises:
  "packageCache_get s ''datasource-docker-labels'' (r @ '':'' @ d @ '':'' @ t) = JUndefined \<Longrightarrow>
   getConfigDigest env r d (JStr t) s = Some (Inl (ExternalHostError x), s1) \<Longrightarrow>
   getLabels env r d t s = Some (Inl (ExternalHostError x), s1)"
  by (simp add: getLabels_def getLabels_try_def getLabels_catch_def)

lemma getLabels_auth_raises:
  "packageCache_get s ''datasource-docker-labels'' (r @ '':'' @ d @ '':'' @ t) = JUndefined \<Longrightarrow>
   getConfigDigest env r d (JStr t) s = Some (Inr digest, s1) \<Longrightarrow>
   truthy digest \<Longrightarrow>
   getAuthHeaders env r d s1 = (Inl (ExternalHostError x), s2) \<Longrightarrow>
   getLabels env r d t s = Some (Inl (ExternalHostError x), s2)"
  by (simp add: getLabels_def getLabels_try_def getLabels_catch_def)

text \<open>
  Claim C5. An \<^verbatim>\<open>ExternalHostError\<close> raised by an inner call leaves the enclosing
  operation as the same error, in the state the inner call left: from \<^verbatim>\<open>getAuthHeaders\<close>
  through \<^verbatim>\<open>getManifestResponse\<close>, from \<^verbatim>\<open>getManifestResponse\<close> and from the recursive
  call on a manifest list through \<^verbatim>\<open>getConfigDigest\<close>, and from \<^verbatim>\<open>getConfigDigest\<close> and
  \<^verbatim>\<open>getAuthHeaders\<close> through \<^verbatim>\<open>getLabels\<close>; and so does every \<^verbatim>\<open>ExternalHostError\<close> raised
  inside the \<^verbatim>\<open>try\<close> of \<^verbatim>\<open>getManifestResponse\<close> or of \<^verbatim>\<open>getLabels\<close>, the HTTP client's
  included. It is not wrapped again and not turned into \<^verbatim>\<open>null\<close> or \<^verbatim>\<open>{}\<close>.
\<close>

theorem host_fatal_error_passes_through:
  "(getAuthHeaders env r d s = (Inl (ExternalHostError x), s1) \<and> js_ToString env tagv = Inr t
      \<longrightarrow> getManifestResponse env r d tagv s = (Inl (ExternalHostError x), s1))
   \<and> (getManifestResponse env r d tagv s = (Inl (ExternalHostError x), s1)
      \<longrightarrow> getConfigDigest env r d tagv s = Some (Inl (ExternalHostError x), s1))
   \<and> (getManifestResponse env r d tagv s = (Inr (Some resp), s1)
      \<and> JSON_parse env (resp_body resp) = Inr manifest
      \<and> js_member manifest ''schemaVersion'' = Inr (JNum (Finite 2))
      \<and> js_member manifest ''mediaType'' = Inr (JStr manifestListV2)
      \<and> js_member manifest ''manifests'' = Inr (JArr (first # others))
      \<and> js_member first ''digest'' = Inr digest
      \<and> getConfigDigest env r d digest s1 = Some (Inl (ExternalHostError x), s2)
      \<longrightarrow> getConfigDigest env r d tagv s = Some (Inl (ExternalHostError x), s2))
   \<and> (packageCache_get s ''datasource-docker-labels'' (r @ '':'' @ d @ '':'' @ tg) = JUndefined
      \<and> getConfigDigest env r d (JStr tg) s = Some (Inl (ExternalHostError x), s1)
      \<longrightarrow> getLabels env r d tg s = Some (Inl (ExternalHostError x), s1))
   \<and> (packageCache_get s ''datasource-docker-labels'' (r @ '':'' @ d @ '':'' @ tg) = JUndefined
      \<and> getConfigDigest env r d (JStr tg) s = Some (Inr configDigest, s1)
      \<and> truthy configDigest
      \<and> getAuthHeaders env r d s1 = (Inl (ExternalHostError x), s2)
      \<longrightarrow> getLabels env r d tg s = Some (Inl (ExternalHostError x), s2))
   \<and> (js_ToString env tagv = Inr t
      \<and> getManifestResponse_try env r d t s = (Inl (ExternalHostError x), s1)
      \<longrightarrow> getManifestResponse env r d tagv s = (Inl (ExternalHostError x), s1))
   \<and> (packageCache_get s ''datasource-docker-labels'' (r @ '':'' @ d @ '':'' @ tg) = JUndefined
      \<and> getLabels_try env r d tg ''datasource-docker-labels'' (r @ '':'' @ d @ '':'' @ tg) s
          = Some (Inl (ExternalHostError x), s1)
      \<longrightarrow> getLabels env r d tg s = Some (Inl (ExternalHostError x), s1))"
proof (intro conjI impI)
  assume "getAuthHeaders env r d s = (Inl (ExternalHostError x), s1) \<and> js_ToString env tagv = Inr t"
  then show "getManifestResponse env r d tagv s = (Inl (ExternalHostError x), s1)"
    by (blast intro: getManifestResponse_auth_raises)
next
  assume "getManifestResponse env r d tagv s = (Inl (ExternalHostError x), s1)"
  then show "getConfigDigest env r d tagv s = Some (Inl (ExternalHostError x), s1)"
    by (rule getConfigDigest_raise)
next
  assume a: "getManifestResponse env r d tagv s = (Inr (Some resp), s1)
      \<and> JSON_parse env (resp_body resp) = Inr manifest
      \<and> js_member manifest ''schemaVersion'' = Inr (JNum (Finite 2))
      \<and> js_member manifest ''mediaType'' = Inr (JStr manifestListV2)
      \<and> js_member manifest ''manifests'' = Inr (JArr (first # others))
      \<and> js_member first ''digest'' = Inr digest
      \<and> getConfigDigest env r d digest s1 = Some (Inl (ExternalHostError x), s2)"
  then have "getConfigDigest env r d tagv s = getConfigDigest env r d digest s1"
    by (intro getConfigDigest_list manifest_list_condition_array first_manifest_digest_array)
      blast+
  with a show "getConfigDigest env r d tagv s = Some (Inl (ExternalHostError x), s2)"
    by simp
next
  assume "packageCache_get s ''datasource-docker-labels'' (r @ '':'' @ d @ '':'' @ tg) = JUndefined
      \<and> getConfigDigest env r d (JStr tg) s = Some (Inl (ExternalHostError x), s1)"
  then show "getLabels env r d tg s = Some (Inl (ExternalHostError x), s1)"
    by (blast intro: getLabels_digest_raises)
next
  assume "packageCache_get s ''datasource-docker-labels'' (r @ '':'' @ d @ '':'' @ tg) = JUndefined
      \<and> getConfigDigest env r d (JStr tg) s = Some (Inr configDigest, s1)
      \<and> truthy configDigest
      \<and> getAuthHeaders env r d s1 = (Inl (ExternalHostError x), s2)"
  then show "getLabels env r d tg s = Some (Inl (ExternalHostError x), s2)"
    by (blast intro: getLabels_auth_raises)
next
  assume "js_ToString env tagv = Inr t
      \<and> getManifestResponse_try env r d t s = (Inl (ExternalHostError x), s1)"
  then show "getManifestResponse env r d tagv s = (Inl (ExternalHostError x), s1)"
    by (simp add: getManifestResponse_def getManifestResponse_catch_def)
next
  assume "packageCache_get s ''datasource-docker-labels'' (r @ '':'' @ d @ '':'' @ tg) = JUndefined
      \<and> getLabels_try env r d tg ''datasource-docker-labels'' (r @ '':'' @ d @ '':'' @ tg) s
          = Some (Inl (ExternalHostError x), s1)"
  then show "getLabels env r d tg s = Some (Inl (ExternalHostError x), s1)"
    by (simp add: getLabels_def getLabels_catch_def)
qed

text \<open>
  The token service that is down (\<^verbatim>\<open>team/down\<close>), the registry that fails on the first
  entry of a manifest list (\<^verbatim>\<open>team/app\<close>), and the network that fails when \<^verbatim>\<open>getLabels\<close>
  asks for the headers of the blob request.
\<close>

theorem host_fatal_error_passes_through_witness:
  "getManifestResponse bearer_env ''https://registry.example.com'' ''team/down'' (JStr ''latest'')
       initial_state
     = (Inl (ExternalHostError (http_error 503)),
        snd (getAuthHeaders bearer_env ''https://registry.example.com'' ''team/down''
               initial_state))
   \<and> getConfigDigest bearer_env ''https://registry.example.com'' ''team/down'' (JStr ''latest'')
       initial_state
     = Some (Inl (ExternalHostError (http_error 503)),
        snd (getAuthHeaders bearer_env ''https://registry.example.com'' ''team/down''
               initial_state))
   \<and> getLabels bearer_env ''https://registry.example.com'' ''team/down'' ''latest''
       initial_state
     = Some (Inl (ExternalHostError (http_error 503)),
        snd (getAuthHeaders bearer_env ''https://registry.example.com'' ''team/down''
               initial_state))
   \<and> getConfigDigest bearer_env ''https://registry.example.com'' ''team/app'' (JStr ''latest'')
       initial_state
     = Some (Inl (ExternalHostError (http_error 503)),
        snd (getManifestResponse bearer_env ''https://registry.example.com'' ''team/app''
               (JStr ''sha256:first'')
               (snd (getManifestResponse bearer_env ''https://registry.example.com''
                       ''team/app'' (JStr ''latest'') initial_state))))
   \<and> getLabels flaky_env ''https://index.docker.io'' ''library/alpine'' ''latest'' initial_state
     = Some (Inl (ExternalHostError RequestError),
        snd (getAuthHeaders flaky_env ''https://index.docker.io'' ''library/alpine''
               (snd (the (getConfigDigest flaky_env ''https://index.docker.io''
                            ''library/alpine'' (JStr ''latest'') initial_state)))))
   \<and> getManifestResponse bearer_env ''https://registry.example.com'' ''team/down'' (JStr ''latest'')
       initial_state
     = (Inl (ExternalHostError (http_error 503)),
        snd (getManifestResponse_try bearer_env ''https://registry.example.com'' ''team/down''
               ''latest'' initial_state))
   \<and> getLabels bearer_env ''https://registry.example.com'' ''team/down'' ''latest''
       initial_state
     = Some (Inl (ExternalHostError (http_error 503)),
        snd (the (getLabels_try bearer_env ''https://registry.example.com'' ''team/down''
                    ''latest'' ''datasource-docker-labels''
                    (''https://registry.example.com'' @ '':'' @ ''team/down'' @ '':'' @ ''latest'')
                    initial_state)))"
proof -
  let ?R = "''https://registry.example.com''"
  let ?H = "''https://index.docker.io''"
  let ?e = "http_error 503"
  let ?s1 = "snd (getAuthHeaders bearer_env ?R ''team/down'' initial_state)"
  let ?t1 = "snd (getManifestResponse bearer_env ?R ''team/app'' (JStr ''latest'') initial_state)"
  let ?t2 = "snd (getManifestResponse bearer_env ?R ''team/app'' (JStr ''sha256:first'') ?t1)"
  let ?u1 = "snd (the (getConfigDigest flaky_env ?H ''library/alpine'' (JStr ''latest'')
                         initial_state))"
  let ?u2 = "snd (getAuthHeaders flaky_env ?H ''library/alpine'' ?u1)"
  let ?entry = "JObj [(''digest'', JStr ''sha256:first'')]"
  let ?list = "JObj [(''schemaVersion'', JNum (Finite 2)), (''mediaType'', JStr manifestListV2),
                 (''manifests'', JArr [?entry])]"
  have "fst (getAuthHeaders bearer_env ?R ''team/down'' initial_state)
          = Inl (ExternalHostError ?e)"
    by code_simp
  then have auth: "getAuthHeaders bearer_env ?R ''team/down'' initial_state
      = (Inl (ExternalHostError ?e), ?s1)"
    by (rule pair_of_fst)
  have str: "js_ToString bearer_env (JStr ''latest'') = Inr ''latest''"
    by simp
  have manifest: "getManifestResponse bearer_env ?R ''team/down'' (JStr ''latest'') initial_state
      = (Inl (ExternalHostError ?e), ?s1)"
    using host_fatal_error_passes_through [where env = bearer_env and r = ?R
        and d = "''team/down''" and s = initial_state and x = ?e and ?s1.0 = ?s1
        and tagv = "JStr ''latest''" and t = "''latest''"] auth str
    by blast
  have digest: "getConfigDigest bearer_env ?R ''team/down'' (JStr ''latest'') initial_state
      = Some (Inl (ExternalHostError ?e), ?s1)"
    using host_fatal_error_passes_through [where env = bearer_env and r = ?R
        and d = "''team/down''" and s = initial_state and x = ?e and ?s1.0 = ?s1
        and tagv = "JStr ''latest''"] manifest
    by blast
  have miss1: "packageCache_get initial_state ''datasource-docker-labels''
      (?R @ '':'' @ ''team/down'' @ '':'' @ ''latest'') = JUndefined"
    by code_simp
  have labels: "getLabels bearer_env ?R ''team/down'' ''latest'' initial_state
      = Some (Inl (ExternalHostError ?e), ?s1)"
    using host_fatal_error_passes_through [where env = bearer_env and r = ?R
        and d = "''team/down''" and s = initial_state and x = ?e and ?s1.0 = ?s1
        and tg = "''latest''" and tagv = "JStr ''latest''"] miss1 digest
    by blast
  have "fst (getManifestResponse bearer_env ?R ''team/app'' (JStr ''latest'') initial_state)
      = Inr (Some (respond 200 [] list_json))"
    by code_simp
  then have fetch: "getManifestResponse bearer_env ?R ''team/app'' (JStr ''latest'')
      initial_state = (Inr (Some (respond 200 [] list_json)), ?t1)"
    by (rule pair_of_fst)
  have parse: "JSON_parse bearer_env (resp_body (respond 200 [] list_json)) = Inr ?list"
    by code_simp
  have schema: "js_member ?list ''schemaVersion'' = Inr (JNum (Finite 2))"
    by code_simp
  have media: "js_member ?list ''mediaType'' = Inr (JStr manifestListV2)"
    by code_simp
  have entries: "js_member ?list ''manifests'' = Inr (JArr (?entry # []))"
    by code_simp
  have first: "js_member ?entry ''digest'' = Inr (JStr ''sha256:first'')"
    by code_simp
  have "fst (getManifestResponse bearer_env ?R ''team/app'' (JStr ''sha256:first'') ?t1)
      = Inl (ExternalHostError ?e)"
    by code_simp
  then have "getManifestResponse bearer_env ?R ''team/app'' (JStr ''sha256:first'') ?t1
      = (Inl (ExternalHostError ?e), ?t2)"
    by (rule pair_of_fst)
  then have inner: "getConfigDigest bearer_env ?R ''team/app'' (JStr ''sha256:first'') ?t1
      = Some (Inl (ExternalHostError ?e), ?t2)"
    using host_fatal_error_passes_through [where env = bearer_env and r = ?R
        and d = "''team/app''" and s = ?t1 and x = ?e and ?s1.0 = ?t2
        and tagv = "JStr ''sha256:first''"]
    by blast
  have outer: "getConfigDigest bearer_env ?R ''team/app'' (JStr ''latest'') initial_state
      = Some (Inl (ExternalHostError ?e), ?t2)"
    using host_fatal_error_passes_through [where env = bearer_env and r = ?R
        and d = "''team/app''" and s = initial_state and x = ?e and ?s1.0 = ?t1
        and ?s2.0 = ?t2 and tagv = "JStr ''latest''" and resp = "respond 200 [] list_json"
        and manifest = ?list and first = ?entry and others = "[]"
        and digest = "JStr ''sha256:first''"]
      fetch parse schema media entries first inner
    by blast
  have miss3: "packageCache_get initial_state ''datasource-docker-labels''
      (?H @ '':'' @ ''library/alpine'' @ '':'' @ ''latest'') = JUndefined"
    by code_simp
  have "map_option fst (getConfigDigest flaky_env ?H ''library/alpine'' (JStr ''latest'')
      initial_state) = Some (Inr (JStr ''sha256:abc''))"
    by code_simp
  then have resolved: "getConfigDigest flaky_env ?H ''library/alpine'' (JStr ''latest'')
      initial_state = Some (Inr (JStr ''sha256:abc''), ?u1)"
    by (rule option_pair_of_fst)
  have nonempty: "truthy (JStr ''sha256:abc'')"
    by simp
  have "fst (getAuthHeaders flaky_env ?H ''library/alpine'' ?u1)
      = Inl (ExternalHostError RequestError)"
    by code_simp
  then have auth3: "getAuthHeaders flaky_env ?H ''library/alpine'' ?u1
      = (Inl (ExternalHostError RequestError), ?u2)"
    by (rule pair_of_fst)
  have flaky: "getLabels flaky_env ?H ''library/alpine'' ''latest'' initial_state
      = Some (Inl (ExternalHostError RequestError), ?u2)"
    using host_fatal_error_passes_through [where env = flaky_env and r = ?H
        and d = "''library/alpine''" and s = initial_state and x = RequestError
        and ?s1.0 = ?u1 and ?s2.0 = ?u2 and tg = "''latest''"
        and configDigest = "JStr ''sha256:abc''" and tagv = "JStr ''latest''"]
      miss3 resolved nonempty auth3
    by blast
  let ?v1 = "snd (getManifestResponse_try bearer_env ?R ''team/down'' ''latest'' initial_state)"
  have "fst (getManifestResponse_try bearer_env ?R ''team/down'' ''latest'' initial_state)
      = Inl (ExternalHostError ?e)"
    by code_simp
  then have body: "getManifestResponse_try bearer_env ?R ''team/down'' ''latest'' initial_state
      = (Inl (ExternalHostError ?e), ?v1)"
    by (rule pair_of_fst)
  have manifest': "getManifestResponse bearer_env ?R ''team/down'' (JStr ''latest'')
      initial_state = (Inl (ExternalHostError ?e), ?v1)"
    using host_fatal_error_passes_through [where env = bearer_env and r = ?R
        and d = "''team/down''" and s = initial_state and x = ?e and ?s1.0 = ?v1
        and tagv = "JStr ''latest''" and t = "''latest''"] str body
    by blast
  let ?key = "?R @ '':'' @ ''team/down'' @ '':'' @ ''latest''"
  let ?v2 = "snd (the (getLabels_try bearer_env ?R ''team/down'' ''latest''
                         ''datasource-docker-labels'' ?key initial_state))"
  have "map_option fst (getLabels_try bearer_env ?R ''team/down'' ''latest''
      ''datasource-docker-labels'' ?key initial_state) = Some (Inl (ExternalHostError ?e))"
    by code_simp
  then have body': "getLabels_try bearer_env ?R ''team/down'' ''latest''
      ''datasource-docker-labels'' ?key initial_state = Some (Inl (ExternalHostError ?e), ?v2)"
    by (rule option_pair_of_fst)
  have labels': "getLabels bearer_env ?R ''team/down'' ''latest'' initial_state
      = Some (Inl (ExternalHostError ?e), ?v2)"
    using host_fatal_error_passes_through [where env = bearer_env and r = ?R
        and d = "''team/down''" and s = initial_state and x = ?e and ?s1.0 = ?v2
        and tg = "''latest''" and tagv = "JStr ''latest''"] miss1 body'
    by blast
  from manifest digest labels outer flaky manifest' labels' show ?thesis
    by (intro conjI)
qed

subsection \<open>A manifest list without \<^verbatim>\<open>manifests\<close>\<close>

text \<open>
  Claim C4. The claim is that a manifest of schema version 2 that is neither a manifest
  list with an entry nor a single-image manifest gives \<^verbatim>\<open>null\<close> and no error, for example
  a body with the media type of a manifest list and no \<^verbatim>\<open>manifests\<close>. On that body the
  condition of line 315 reads \<^verbatim>\<open>manifest.manifests.length\<close> of \<^verbatim>\<open>undefined\<close>:
  \<^verbatim>\<open>getConfigDigest\<close> raises a \<^verbatim>\<open>TypeError\<close>.
\<close>

theorem getConfigDigest_list_without_manifests:
  "JSON_parse hub_env list_without_manifests_json
     = Inr (JObj [(''schemaVersion'', JNum (Finite 2)), (''mediaType'', JStr manifestListV2)])
   \<and> fst (getManifestResponse hub_env ''https://index.docker.io'' ''library/broken''
            (JStr ''latest'') initial_state)
     = Inr (Some (respond 200 [] list_without_manifests_json))
   \<and> map_option fst (getConfigDigest hub_env ''https://index.docker.io'' ''library/broken''
                       (JStr ''latest'') initial_state)
     = Some (Inl TypeError)"
  by code_simp

subsection \<open>A configuration without \<^verbatim>\<open>Labels\<close>\<close>

text \<open>
  Claim C3. The claim is that absent labels are an empty mapping, returned and cached for
  60 minutes. On a blob \<^verbatim>\<open>{"config":{}}\<close> line 376 assigns \<^verbatim>\<open>undefined\<close> to \<^verbatim>\<open>labels\<close>:
  \<^verbatim>\<open>getLabels\<close> returns \<^verbatim>\<open>undefined\<close>, and the cache entry it writes holds \<^verbatim>\<open>undefined\<close>, which
  a later read does not tell from a miss.
\<close>

theorem getLabels_without_labels:
  "JSON_parse hub_env config_without_labels_json = Inr (JObj [(''config'', JObj [])])
   \<and> map_option fst (getLabels hub_env ''https://index.docker.io'' ''library/node'' ''latest''
                       initial_state)
     = Some (Inr JUndefined)
   \<and> map_option (\<lambda>p. cache (snd p)
         (''datasource-docker-labels'', ''https://index.docker.io:library/node:latest''))
       (getLabels hub_env ''https://index.docker.io'' ''library/node'' ''latest'' initial_state)
     = Some (Some (JUndefined, 60))
   \<and> map_option (\<lambda>p. packageCache_get (snd p)
         ''datasource-docker-labels'' ''https://index.docker.io:library/node:latest'')
       (getLabels hub_env ''https://index.docker.io'' ''library/node'' ''latest'' initial_state)
     = Some JUndefined"
  by code_simp

subsection \<open>The registry named by the lookup name\<close>

lemma js_split_no_separator: "x \<in> set (js_split sep s) \<Longrightarrow> sep \<notin> set x"
proof (induction s arbitrary: x)
  case Nil
  then show ?case by simp
next
  case (Cons c cs)
  then show ?case
    by (cases "js_split sep cs") (auto split: if_splits)
qed

lemma startsWith_set: "startsWith s p \<Longrightarrow> set p \<subseteq> set s"
  unfolding startsWith_def by (metis set_take_subset)

lemma no_slash_no_scheme: "CHR ''/'' \<notin> set s \<Longrightarrow> \<not> has_scheme s"
  unfolding has_scheme_def by (auto dest!: startsWith_set)

lemma index_docker_io_no_scheme: "\<not> has_scheme ''index.docker.io''"
  by (simp add: has_scheme_def startsWith_def)

text \<open>
  Claim C9, amended. Let the lookup name have at least two segments, the first of them
  holding a dot or a colon. When the lookup name does not start with the host and path of
  a registry URL other than the default one (the shortcut of line 158), and no host rule
  marks the registry insecure, the registry is \<^verbatim>\<open>https://\<close> followed by the first segment,
  \<^verbatim>\<open>docker.io\<close> being replaced by \<^verbatim>\<open>index.docker.io\<close>; the repository is the other segments
  joined by \<^verbatim>\<open>/\<close>, with \<^verbatim>\<open>library/\<close> before it when the registry ends with \<^verbatim>\<open>.docker.io\<close> and
  one segment is left.
\<close>

theorem getRegistryRepository_explicit_host:
  assumes split: "js_split CHR ''/'' lookupName = host # rest"
    and more: "rest \<noteq> []"
    and dotted: "js_includes host CHR ''.'' \<or> js_includes host CHR '':''"
    and no_prefix: "registryUrl = hd defaultRegistryUrls
      \<or> \<not> startsWith lookupName (ensureTrailingSlash (strip_scheme registryUrl))"
    and secure: "insecureRegistry (hostRules_find env
      (''https://'' @ (if host = ''docker.io'' then ''index.docker.io'' else host))) \<noteq> Some True"
  shows "getRegistryRepository env lookupName registryUrl =
    \<lparr>rr_registry = ''https://'' @ (if host = ''docker.io'' then ''index.docker.io'' else host),
     rr_repository =
       (if endsWith (''https://'' @ (if host = ''docker.io'' then ''index.docker.io'' else host))
             ''.docker.io''
           \<and> \<not> js_includes (js_join ''/'' rest) CHR ''/''
        then ''library/'' @ js_join ''/'' rest else js_join ''/'' rest)\<rparr>"
proof -
  define canon where "canon = (if host = ''docker.io'' then ''index.docker.io'' else host)"
  have "host \<in> set (js_split CHR ''/'' lookupName)"
    using split by simp
  then have "CHR ''/'' \<notin> set host"
    by (rule js_split_no_separator)
  then have plain: "\<not> has_scheme host"
    by (rule no_slash_no_scheme)
  have nonempty: "host \<noteq> []"
    using dotted by (auto simp: js_includes_def)
  have canon: "\<not> has_scheme canon"
    using plain index_docker_io_no_scheme by (simp add: canon_def)
  have step1: "\<not> (registryUrl \<noteq> hd defaultRegistryUrls
      \<and> startsWith lookupName (ensureTrailingSlash (strip_scheme registryUrl)))"
    using no_prefix by blast
  have hasHost: "length (js_split CHR ''/'' lookupName) > 1
      \<and> (js_includes (hd (js_split CHR ''/'' lookupName)) CHR ''.''
         \<or> js_includes (hd (js_split CHR ''/'' lookupName)) CHR '':'')"
    using split more dotted by (cases rest) simp_all
  have field: "truthy_field (Some host)" "String_of (Some host) = host"
    using nonempty by (simp_all add: truthy_field_def String_of_def)
  have tail: "tl (js_split CHR ''/'' lookupName) = rest" "hd (js_split CHR ''/'' lookupName) = host"
    using split by simp_all
  have secure': "insecureRegistry (hostRules_find env (''https://'' @ canon)) \<noteq> Some True"
    unfolding canon_def by (rule secure)
  have len: "1 < length (host # rest)"
    using more by (cases rest) simp_all
  have sel: "hd (host # rest) = host" "tl (host # rest) = rest"
    by simp_all
  have idx: "\<not> has_scheme ''index.docker.io''"
    by (rule index_docker_io_no_scheme)
  show ?thesis
  proof (cases "host = ''docker.io''")
    case True
    have sec: "insecureRegistry (hostRules_find env (''https://'' @ ''index.docker.io'')) \<noteq> Some True"
      using secure True by simp
    show ?thesis
      unfolding getRegistryRepository_def Let_def
      apply (simp only: step1 if_False split sel len dotted field simp_thms if_True)
      apply (simp only: True simp_thms if_True idx if_False sec)
      done
  next
    case False
    have sec: "insecureRegistry (hostRules_find env (''https://'' @ host)) \<noteq> Some True"
      using secure False by simp
    show ?thesis
      unfolding getRegistryRepository_def Let_def
      apply (simp only: step1 if_False split sel len dotted field simp_thms if_True)
      apply (simp only: False simp_thms if_True plain if_False sec)
      done
  qed
qed

text \<open>The example of the claim, with no host rule.\<close>

theorem getRegistryRepository_explicit_host_witness:
  "getRegistryRepository hub_env ''myregistry.example.com/foo/bar'' ''https://index.docker.io''
     = \<lparr>rr_registry = ''https://myregistry.example.com'', rr_repository = ''foo/bar''\<rparr>"
proof -
  let ?host = "''myregistry.example.com''"
  have split: "js_split CHR ''/'' ''myregistry.example.com/foo/bar'' = ?host # [''foo'', ''bar'']"
    by code_simp
  have more: "[''foo'', ''bar''] \<noteq> []"
    by simp
  have dotted: "js_includes ?host CHR ''.'' \<or> js_includes ?host CHR '':''"
    by code_simp
  have no_prefix: "''https://index.docker.io'' = hd defaultRegistryUrls
      \<or> \<not> startsWith ''myregistry.example.com/foo/bar''
            (ensureTrailingSlash (strip_scheme ''https://index.docker.io''))"
    by code_simp
  have secure: "insecureRegistry (hostRules_find hub_env
      (''https://'' @ (if ?host = ''docker.io'' then ''index.docker.io'' else ?host))) \<noteq> Some True"
    by code_simp
  have result: "\<lparr>rr_registry = ''https://'' @ (if ?host = ''docker.io'' then ''index.docker.io'' else ?host),
     rr_repository =
       (if endsWith (''https://'' @ (if ?host = ''docker.io'' then ''index.docker.io'' else ?host))
             ''.docker.io''
           \<and> \<not> js_includes (js_join ''/'' [''foo'', ''bar'']) CHR ''/''
        then ''library/'' @ js_join ''/'' [''foo'', ''bar''] else js_join ''/'' [''foo'', ''bar''])\<rparr>
     = \<lparr>rr_registry = ''https://myregistry.example.com'', rr_repository = ''foo/bar''\<rparr>"
    by code_simp
  show ?thesis
    using getRegistryRepository_explicit_host [OF split more dotted no_prefix secure] result
    by (rule trans)
qed

text \<open>
  The claim as it is written fails: the first segment \<^verbatim>\<open>docker.io\<close> gives the registry
  \<^verbatim>\<open>https://index.docker.io\<close>; a lookup name that starts with the host and path of the
  registry URL gives that URL; a host rule with \<^verbatim>\<open>insecureRegistry\<close> gives \<^verbatim>\<open>http://\<close>; and one
  segment left on Docker Hub gets the \<^verbatim>\<open>library/\<close> prefix.
\<close>

theorem getRegistryRepository_other_registry:
  "rr_registry (getRegistryRepository hub_env ''docker.io/library/node''
       ''https://index.docker.io'') \<noteq> ''https://docker.io''
   \<and> getRegistryRepository hub_env ''docker.io/library/node'' ''https://index.docker.io''
     = \<lparr>rr_registry = ''https://index.docker.io'', rr_repository = ''library/node''\<rparr>
   \<and> getRegistryRepository hub_env ''registry.example.com/proxy/team/app''
       ''https://registry.example.com/proxy''
     = \<lparr>rr_registry = ''https://registry.example.com/proxy'', rr_repository = ''team/app''\<rparr>
   \<and> getRegistryRepository insecure_env ''localhost:5000/team/app'' ''https://index.docker.io''
     = \<lparr>rr_registry = ''http://localhost:5000'', rr_repository = ''team/app''\<rparr>
   \<and> getRegistryRepository hub_env ''index.docker.io/node'' ''https://index.docker.io''
     = \<lparr>rr_registry = ''https://index.docker.io'', rr_repository = ''library/node''\<rparr>"
  by code_simp

subsection \<open>A Basic challenge and no credentials\<close>

text \<open>
  Claim C10, amended. Let the probe of \<^verbatim>\<open>/v2/\<close> return a challenge whose scheme is
  \<^verbatim>\<open>BASIC\<close> in any case, the registry not be an ECR host and the host rule lack a user name
  or a password. When the second request of \<^verbatim>\<open>/v2/\<close>, with the stripped options, does not
  raise, \<^verbatim>\<open>getAuthHeaders\<close> returns \<^verbatim>\<open>undefined\<close>, the \<^verbatim>\<open>headers\<close> field that was never
  assigned, and \<^verbatim>\<open>getManifestResponse\<close> returns \<^verbatim>\<open>null\<close> without a manifest request.
\<close>

theorem getAuthHeaders_basic_without_credentials:
  assumes probe: "http_get env (r @ ''/v2/'') (no_options\<lparr>opt_throwHttpErrors := Some False\<rparr>) s
      = (Inr probeResponse, s1)"
    and header: "map_of (resp_headers probeResponse) ''www-authenticate'' = Some header"
    and parsed: "WWW_Authenticate env header = Inr authenticateHeader"
    and basic: "toUpperCase (scheme authenticateHeader) = ''BASIC''"
    and not_ecr: "ecrRegex_exec r = None"
    and no_credentials: "\<not> (truthy_field (username (hostRules_find env (r @ ''/v2/'')))
      \<and> truthy_field (password (hostRules_find env (r @ ''/v2/''))))"
    and verified: "http_get env (r @ ''/v2/'')
      ((options_of_rule (hostRules_find env (r @ ''/v2/'')))
         \<lparr>opt_username := None, opt_password := None\<rparr>) s1 = (Inr verification, s2)"
    and tag_string: "js_ToString env tagv = Inr t"
  shows "getAuthHeaders env r d s = (Inr Undefined, s2)
    \<and> getManifestResponse env r d tagv s = (Inr None, s2)"
proof -
  have auth: "getAuthHeaders_authorization env r (options_of_rule (hostRules_find env (r @ ''/v2/''))) s1
      = (Inr (options_of_rule (hostRules_find env (r @ ''/v2/''))), s1)"
    using not_ecr no_credentials
    by (simp add: getAuthHeaders_authorization_def options_of_rule_def)
  have none: "opt_headers ((options_of_rule (hostRules_find env (r @ ''/v2/'')))
         \<lparr>opt_username := None, opt_password := None\<rparr>) = None"
    by (simp add: options_of_rule_def)
  have "getAuthHeaders_try env r d s = (Inr Undefined, s2)"
    unfolding getAuthHeaders_try_def Let_def
    by (simp only: probe header parsed basic auth verified none
        prod.case sum.case option.case simp_thms if_True)
  then have headers: "getAuthHeaders env r d s = (Inr Undefined, s2)"
    by (simp add: getAuthHeaders_def)
  then have "getManifestResponse env r d tagv s = (Inr None, s2)"
    using tag_string by (simp add: getManifestResponse_def getManifestResponse_try_def)
  with headers show ?thesis
    by simp
qed

text \<open>The mirror that sends the challenge \<^verbatim>\<open>basic\<close> and serves the request.\<close>

theorem getAuthHeaders_basic_without_credentials_witness:
  "getAuthHeaders basic_env ''https://mirror.example.com'' ''team/app'' initial_state
     = (Inr Undefined,
        snd (http_get basic_env (''https://mirror.example.com'' @ ''/v2/'')
               ((options_of_rule (hostRules_find basic_env
                    (''https://mirror.example.com'' @ ''/v2/'')))
                  \<lparr>opt_username := None, opt_password := None\<rparr>)
               (snd (http_get basic_env (''https://mirror.example.com'' @ ''/v2/'')
                       (no_options\<lparr>opt_throwHttpErrors := Some False\<rparr>) initial_state))))
   \<and> getManifestResponse basic_env ''https://mirror.example.com'' ''team/app'' (JStr ''latest'')
       initial_state
     = (Inr None,
        snd (http_get basic_env (''https://mirror.example.com'' @ ''/v2/'')
               ((options_of_rule (hostRules_find basic_env
                    (''https://mirror.example.com'' @ ''/v2/'')))
                  \<lparr>opt_username := None, opt_password := None\<rparr>)
               (snd (http_get basic_env (''https://mirror.example.com'' @ ''/v2/'')
                       (no_options\<lparr>opt_throwHttpErrors := Some False\<rparr>) initial_state))))"
proof -
  let ?M = "''https://mirror.example.com''"
  let ?probe = "respond 200 [(''www-authenticate'', mirror_header)] []"
  let ?challenge = "\<lparr>scheme = ''basic'', parms_realm = Some ''Mirror'', parms_service = None\<rparr>"
  let ?opts = "(options_of_rule (hostRules_find basic_env (?M @ ''/v2/'')))
                  \<lparr>opt_username := None, opt_password := None\<rparr>"
  let ?s1 = "snd (http_get basic_env (?M @ ''/v2/'')
                    (no_options\<lparr>opt_throwHttpErrors := Some False\<rparr>) initial_state)"
  let ?s2 = "snd (http_get basic_env (?M @ ''/v2/'') ?opts ?s1)"
  have "fst (http_get basic_env (?M @ ''/v2/'') (no_options\<lparr>opt_throwHttpErrors := Some False\<rparr>)
               initial_state) = Inr ?probe"
    by code_simp
  then have probe: "http_get basic_env (?M @ ''/v2/'')
      (no_options\<lparr>opt_throwHttpErrors := Some False\<rparr>) initial_state = (Inr ?probe, ?s1)"
    by (rule pair_of_fst)
  have header: "map_of (resp_headers ?probe) ''www-authenticate'' = Some mirror_header"
    by code_simp
  have parsed: "WWW_Authenticate basic_env mirror_header = Inr ?challenge"
    by code_simp
  have basic: "toUpperCase (scheme ?challenge) = ''BASIC''"
    by code_simp
  have not_ecr: "ecrRegex_exec ?M = None"
    by code_simp
  have no_credentials: "\<not> (truthy_field (username (hostRules_find basic_env (?M @ ''/v2/'')))
      \<and> truthy_field (password (hostRules_find basic_env (?M @ ''/v2/''))))"
    by code_simp
  have "fst (http_get basic_env (?M @ ''/v2/'') ?opts ?s1) = Inr ?probe"
    by code_simp
  then have verified: "http_get basic_env (?M @ ''/v2/'') ?opts ?s1 = (Inr ?probe, ?s2)"
    by (rule pair_of_fst)
  have tag_string: "js_ToString basic_env (JStr ''latest'') = Inr ''latest''"
    by simp
  show ?thesis
    using getAuthHeaders_basic_without_credentials
      [OF probe header parsed basic not_ecr no_credentials verified tag_string] .
qed

text \<open>
  Without the condition on the second request the claim fails: the registry that
  answers 401 to it makes the HTTP client raise, and the \<^verbatim>\<open>catch\<close> returns \<^verbatim>\<open>null\<close>.
\<close>

theorem getAuthHeaders_basic_unauthorized:
  "ecrRegex_exec ''https://registry.example.com'' = None
   \<and> username (hostRules_find basic_env ''https://registry.example.com/v2/'') = None
   \<and> password (hostRules_find basic_env ''https://registry.example.com/v2/'') = None
   \<and> fst (http_get basic_env ''https://registry.example.com/v2/''
             (no_options\<lparr>opt_throwHttpErrors := Some False\<rparr>) initial_state)
       = Inr (respond 401 [(''www-authenticate'', basic_header)] [])
   \<and> map_option (toUpperCase \<circ> scheme) (map_of
         [(basic_header,
           \<lparr>scheme = ''Basic'', parms_realm = Some ''Registry'', parms_service = None\<rparr>)]
         basic_header) = Some ''BASIC''
   \<and> fst (getAuthHeaders basic_env ''https://registry.example.com'' ''team/app'' initial_state)
       = Inr Null
   \<and> fst (getAuthHeaders basic_env ''https://registry.example.com'' ''team/app'' initial_state)
       \<noteq> Inr Undefined"
  by code_simp

subsection \<open>The classification of HTTP errors\<close>

lemma getAuthHeaders_probe_without_challenge:
  "http_get env (r @ ''/v2/'') (no_options\<lparr>opt_throwHttpErrors := Some False\<rparr>) s
     = (Inr probeResponse, s1) \<Longrightarrow>
   map_of (resp_headers probeResponse) ''www-authenticate'' = None \<Longrightarrow>
   getAuthHeaders env r d s = (Inr (Defined []), s1)"
  by (simp add: getAuthHeaders_def getAuthHeaders_try_def)

lemma getAuthHeaders_catches:
  "getAuthHeaders_try env r d s = (Inl err, s1) \<Longrightarrow>
   getAuthHeaders env r d s = (getAuthHeaders_catch env r err, s1)"
  by (simp add: getAuthHeaders_def)

lemma getManifestResponse_fetch_raises:
  "getAuthHeaders env r d s = (Inr (Defined h), s1) \<Longrightarrow>
   js_ToString env tagv = Inr t \<Longrightarrow>
   http_get env (r @ ''/v2/'' @ d @ ''/manifests/'' @ t)
     (no_options\<lparr>opt_headers :=
        Some (AList.update ''accept'' (manifestListV2 @ '', '' @ manifestV2) h)\<rparr>) s1
     = (Inl err, s2) \<Longrightarrow>
   getManifestResponse env r d tagv s = (getManifestResponse_catch r err, s2)"
  by (simp add: getManifestResponse_def getManifestResponse_try_def)

lemma getLabels_blob_raises:
  "packageCache_get s ''datasource-docker-labels'' (r @ '':'' @ d @ '':'' @ tg) = JUndefined \<Longrightarrow>
   getConfigDigest env r d (JStr tg) s = Some (Inr configDigest, s1) \<Longrightarrow>
   truthy configDigest \<Longrightarrow>
   getAuthHeaders env r d s1 = (Inr (Defined h), s2) \<Longrightarrow>
   js_ToString env configDigest = Inr digestStr \<Longrightarrow>
   http_get env (r @ ''/v2/'' @ d @ ''/blobs/'' @ digestStr)
     (no_options\<lparr>opt_headers := Some h\<rparr>) s2 = (Inl err, s3) \<Longrightarrow>
   getLabels env r d tg s = Some (getLabels_catch r err, s3)"
  by (simp add: getLabels_def getLabels_try_def)

lemma getLabels_catch_status:
  "exn_statusCode err = Some c \<Longrightarrow> getLabels_catch r err = Inr (JObj [])"
  by (cases err) (simp_all add: getLabels_catch_def)

lemma getLabels_catch_raises:
  "getLabels_catch r err = Inl x \<Longrightarrow> x = err \<and> instanceof_ExternalHostError err"
  by (simp add: getLabels_catch_def split: if_splits)

lemma getLabels_raises_host_fatal_only:
  "getLabels env r d tg s = Some (Inl x, s1) \<Longrightarrow> instanceof_ExternalHostError x"
  by (auto simp: getLabels_def Let_def split: if_splits option.splits sum.splits prod.splits
      dest: getLabels_catch_raises)

text \<open>
  Claim C1, amended. An error of status 429 that reaches the \<^verbatim>\<open>catch\<close> of \<^verbatim>\<open>getAuthHeaders\<close>
  (from the second request of \<^verbatim>\<open>/v2/\<close> on a Basic challenge, or from the token request)
  and whose \<^verbatim>\<open>host\<close> is not \<^verbatim>\<open>quay.io\<close>, and one raised by the manifest request of
  \<^verbatim>\<open>getManifestResponse\<close>, is thrown as an \<^verbatim>\<open>ExternalHostError\<close> around it when the registry
  URL ends with \<^verbatim>\<open>docker.io\<close>, and gives \<^verbatim>\<open>null\<close> otherwise. The first probe of \<^verbatim>\<open>/v2/\<close> does
  not raise on a status: answered 429 without a challenge, it gives the headers \<^verbatim>\<open>{}\<close>. An
  error of status 429 raised by the blob request of \<^verbatim>\<open>getLabels\<close> is logged, and \<^verbatim>\<open>getLabels\<close>
  returns \<^verbatim>\<open>{}\<close>, whatever the registry.
\<close>

theorem too_many_requests_classification:
  "(http_get env (r @ ''/v2/'') (no_options\<lparr>opt_throwHttpErrors := Some False\<rparr>) s
        = (Inr probeResponse, s1)
      \<and> resp_statusCode probeResponse = 429
      \<and> map_of (resp_headers probeResponse) ''www-authenticate'' = None
      \<longrightarrow> getAuthHeaders env r d s = (Inr (Defined []), s1))
   \<and> (getAuthHeaders_try env r d s = (Inl err, s1)
      \<and> exn_statusCode err = Some 429
      \<and> exn_host err \<noteq> Some ''quay.io''
      \<longrightarrow> getAuthHeaders env r d s
          = (if endsWith r ''docker.io'' then Inl (ExternalHostError err) else Inr Null, s1))
   \<and> (getAuthHeaders env r d s = (Inr (Defined h), s1)
      \<and> js_ToString env tagv = Inr t
      \<and> http_get env (r @ ''/v2/'' @ d @ ''/manifests/'' @ t)
            (no_options\<lparr>opt_headers :=
               Some (AList.update ''accept'' (manifestListV2 @ '', '' @ manifestV2) h)\<rparr>) s1
          = (Inl err, s2)
      \<and> exn_statusCode err = Some 429
      \<longrightarrow> getManifestResponse env r d tagv s
          = (if endsWith r ''docker.io'' then Inl (ExternalHostError err) else Inr None, s2))
   \<and> (packageCache_get s ''datasource-docker-labels'' (r @ '':'' @ d @ '':'' @ tg) = JUndefined
      \<and> getConfigDigest env r d (JStr tg) s = Some (Inr configDigest, s1)
      \<and> truthy configDigest
      \<and> getAuthHeaders env r d s1 = (Inr (Defined h), s2)
      \<and> js_ToString env configDigest = Inr digestStr
      \<and> http_get env (r @ ''/v2/'' @ d @ ''/blobs/'' @ digestStr)
            (no_options\<lparr>opt_headers := Some h\<rparr>) s2 = (Inl err, s3)
      \<and> exn_statusCode err = Some 429
      \<longrightarrow> getLabels env r d tg s = Some (Inr (JObj []), s3))"
proof (intro conjI impI)
  assume "http_get env (r @ ''/v2/'') (no_options\<lparr>opt_throwHttpErrors := Some False\<rparr>) s
        = (Inr probeResponse, s1)
      \<and> resp_statusCode probeResponse = 429
      \<and> map_of (resp_headers probeResponse) ''www-authenticate'' = None"
  then show "getAuthHeaders env r d s = (Inr (Defined []), s1)"
    by (blast intro: getAuthHeaders_probe_without_challenge)
next
  assume a: "getAuthHeaders_try env r d s = (Inl err, s1)
      \<and> exn_statusCode err = Some 429
      \<and> exn_host err \<noteq> Some ''quay.io''"
  then have "getAuthHeaders_catch env r err
      = (if endsWith r ''docker.io'' then Inl (ExternalHostError err) else Inr Null)"
    by (simp add: getAuthHeaders_catch_def)
  with a show "getAuthHeaders env r d s
      = (if endsWith r ''docker.io'' then Inl (ExternalHostError err) else Inr Null, s1)"
    by (simp add: getAuthHeaders_catches)
next
  assume a: "getAuthHeaders env r d s = (Inr (Defined h), s1)
      \<and> js_ToString env tagv = Inr t
      \<and> http_get env (r @ ''/v2/'' @ d @ ''/manifests/'' @ t)
            (no_options\<lparr>opt_headers :=
               Some (AList.update ''accept'' (manifestListV2 @ '', '' @ manifestV2) h)\<rparr>) s1
          = (Inl err, s2)
      \<and> exn_statusCode err = Some 429"
  then have "\<not> instanceof_ExternalHostError err"
    by (cases err) simp_all
  with a have "getManifestResponse_catch r err
      = (if endsWith r ''docker.io'' then Inl (ExternalHostError err) else Inr None)"
    by (simp add: getManifestResponse_catch_def)
  moreover from a have "getManifestResponse env r d tagv s = (getManifestResponse_catch r err, s2)"
    by (intro getManifestResponse_fetch_raises) blast+
  ultimately show "getManifestResponse env r d tagv s
      = (if endsWith r ''docker.io'' then Inl (ExternalHostError err) else Inr None, s2)"
    by simp
next
  assume a: "packageCache_get s ''datasource-docker-labels'' (r @ '':'' @ d @ '':'' @ tg) = JUndefined
      \<and> getConfigDigest env r d (JStr tg) s = Some (Inr configDigest, s1)
      \<and> truthy configDigest
      \<and> getAuthHeaders env r d s1 = (Inr (Defined h), s2)
      \<and> js_ToString env configDigest = Inr digestStr
      \<and> http_get env (r @ ''/v2/'' @ d @ ''/blobs/'' @ digestStr)
            (no_options\<lparr>opt_headers := Some h\<rparr>) s2 = (Inl err, s3)
      \<and> exn_statusCode err = Some 429"
  then have "getLabels env r d tg s = Some (getLabels_catch r err, s3)"
    by (intro getLabels_blob_raises) blast+
  moreover from a have "getLabels_catch r err = Inr (JObj [])"
    by (blast intro: getLabels_catch_status)
  ultimately show "getLabels env r d tg s = Some (Inr (JObj []), s3)"
    by simp
qed

text \<open>
  With 429 as the status of \<open>status_env\<close>: the probe of \<^verbatim>\<open>registry.example.com\<close>, the token
  request for \<^verbatim>\<open>library/limited\<close>, the manifest requests of Docker Hub and of
  \<^verbatim>\<open>registry.example.com\<close>, and the blob request for \<^verbatim>\<open>library/busy\<close>.
\<close>

theorem too_many_requests_classification_witness:
  "fst (getAuthHeaders (status_env 429) ''https://registry.example.com'' ''team/app''
          initial_state) = Inr (Defined [])
   \<and> fst (getAuthHeaders (status_env 429) ''https://index.docker.io'' ''library/limited''
          initial_state) = Inl (ExternalHostError (http_error 429))
   \<and> fst (getManifestResponse (status_env 429) ''https://index.docker.io'' ''library/node''
          (JStr ''latest'') initial_state) = Inl (ExternalHostError (http_error 429))
   \<and> fst (getManifestResponse (status_env 429) ''https://registry.example.com'' ''team/app''
          (JStr ''latest'') initial_state) = Inr None
   \<and> map_option fst (getLabels (status_env 429) ''https://index.docker.io'' ''library/busy''
          ''latest'' initial_state) = Some (Inr (JObj []))"
proof -
  let ?env = "status_env 429"
  let ?H = "''https://index.docker.io''"
  let ?R = "''https://registry.example.com''"
  let ?e = "http_error 429"
  let ?probe_opts = "no_options\<lparr>opt_throwHttpErrors := Some False\<rparr>"
  let ?accept = "AList.update ''accept'' (manifestListV2 @ '', '' @ manifestV2)"
  let ?bearer = "[(''authorization'', ''Bearer tok'')]"
  have status: "exn_statusCode ?e = Some 429" and host: "exn_host ?e \<noteq> Some ''quay.io''"
    by (simp_all add: http_error_def)
  have hub: "endsWith ?H ''docker.io''" and other: "\<not> endsWith ?R ''docker.io''"
    by code_simp+
  have latest: "js_ToString ?env (JStr ''latest'') = Inr ''latest''"
    by simp
  \<comment> \<open>the probe answered 429\<close>
  let ?p1 = "snd (http_get ?env (?R @ ''/v2/'') ?probe_opts initial_state)"
  have "fst (http_get ?env (?R @ ''/v2/'') ?probe_opts initial_state) = Inr (respond 429 [] [])"
    by code_simp
  then have probe: "http_get ?env (?R @ ''/v2/'') ?probe_opts initial_state
      = (Inr (respond 429 [] []), ?p1)"
    by (rule pair_of_fst)
  have probe_status: "resp_statusCode (respond 429 [] []) = 429"
    and probe_header: "map_of (resp_headers (respond 429 [] [])) ''www-authenticate'' = None"
    by (simp_all add: respond_def)
  have w1: "getAuthHeaders ?env ?R ''team/app'' initial_state = (Inr (Defined []), ?p1)"
    using too_many_requests_classification [where env = ?env and r = ?R and s = initial_state
        and probeResponse = "respond 429 [] []" and ?s1.0 = ?p1 and d = "''team/app''"]
      probe probe_status probe_header
    by blast
  \<comment> \<open>the token request answered 429\<close>
  let ?a1 = "snd (getAuthHeaders_try ?env ?H ''library/limited'' initial_state)"
  have "fst (getAuthHeaders_try ?env ?H ''library/limited'' initial_state) = Inl ?e"
    by code_simp
  then have token: "getAuthHeaders_try ?env ?H ''library/limited'' initial_state = (Inl ?e, ?a1)"
    by (rule pair_of_fst)
  have w2: "getAuthHeaders ?env ?H ''library/limited'' initial_state
      = (Inl (ExternalHostError ?e), ?a1)"
    using too_many_requests_classification [where env = ?env and r = ?H and s = initial_state
        and err = ?e and ?s1.0 = ?a1 and d = "''library/limited''"]
      token status host hub
    by simp
  \<comment> \<open>the manifest request answered 429, by Docker Hub\<close>
  let ?m1 = "snd (getAuthHeaders ?env ?H ''library/node'' initial_state)"
  let ?m2 = "snd (http_get ?env (?H @ ''/v2/'' @ ''library/node'' @ ''/manifests/'' @ ''latest'')
                    (no_options\<lparr>opt_headers := Some (?accept ?bearer)\<rparr>) ?m1)"
  have "fst (getAuthHeaders ?env ?H ''library/node'' initial_state) = Inr (Defined ?bearer)"
    by code_simp
  then have auth3: "getAuthHeaders ?env ?H ''library/node'' initial_state
      = (Inr (Defined ?bearer), ?m1)"
    by (rule pair_of_fst)
  have "fst (http_get ?env (?H @ ''/v2/'' @ ''library/node'' @ ''/manifests/'' @ ''latest'')
      (no_options\<lparr>opt_headers := Some (?accept ?bearer)\<rparr>) ?m1) = Inl ?e"
    by code_simp
  then have fetch3: "http_get ?env (?H @ ''/v2/'' @ ''library/node'' @ ''/manifests/'' @ ''latest'')
      (no_options\<lparr>opt_headers := Some (?accept ?bearer)\<rparr>) ?m1 = (Inl ?e, ?m2)"
    by (rule pair_of_fst)
  have w3: "getManifestResponse ?env ?H ''library/node'' (JStr ''latest'') initial_state
      = (Inl (ExternalHostError ?e), ?m2)"
    using too_many_requests_classification [where env = ?env and r = ?H and s = initial_state
        and err = ?e and ?s1.0 = ?m1 and ?s2.0 = ?m2 and d = "''library/node''"
        and h = ?bearer and tagv = "JStr ''latest''" and t = "''latest''"]
      auth3 latest fetch3 status hub
    by simp
  \<comment> \<open>the manifest request answered 429, by another registry\<close>
  let ?n2 = "snd (http_get ?env (?R @ ''/v2/'' @ ''team/app'' @ ''/manifests/'' @ ''latest'')
                    (no_options\<lparr>opt_headers := Some (?accept [])\<rparr>) ?p1)"
  have "fst (http_get ?env (?R @ ''/v2/'' @ ''team/app'' @ ''/manifests/'' @ ''latest'')
      (no_options\<lparr>opt_headers := Some (?accept [])\<rparr>) ?p1) = Inl ?e"
    by code_simp
  then have fetch4: "http_get ?env (?R @ ''/v2/'' @ ''team/app'' @ ''/manifests/'' @ ''latest'')
      (no_options\<lparr>opt_headers := Some (?accept [])\<rparr>) ?p1 = (Inl ?e, ?n2)"
    by (rule pair_of_fst)
  have w4: "getManifestResponse ?env ?R ''team/app'' (JStr ''latest'') initial_state
      = (Inr None, ?n2)"
    using too_many_requests_classification [where env = ?env and r = ?R and s = initial_state
        and err = ?e and ?s1.0 = ?p1 and ?s2.0 = ?n2 and d = "''team/app''"
        and h = "[]" and tagv = "JStr ''latest''" and t = "''latest''"]
      w1 latest fetch4 status other
    by simp
  \<comment> \<open>the blob request answered 429\<close>
  let ?b1 = "snd (the (getConfigDigest ?env ?H ''library/busy'' (JStr ''latest'') initial_state))"
  let ?b2 = "snd (getAuthHeaders ?env ?H ''library/busy'' ?b1)"
  let ?b3 = "snd (http_get ?env (?H @ ''/v2/'' @ ''library/busy'' @ ''/blobs/'' @ ''sha256:abc'')
                    (no_options\<lparr>opt_headers := Some ?bearer\<rparr>) ?b2)"
  have miss: "packageCache_get initial_state ''datasource-docker-labels''
      (?H @ '':'' @ ''library/busy'' @ '':'' @ ''latest'') = JUndefined"
    by code_simp
  have "map_option fst (getConfigDigest ?env ?H ''library/busy'' (JStr ''latest'') initial_state)
      = Some (Inr (JStr ''sha256:abc''))"
    by code_simp
  then have digest: "getConfigDigest ?env ?H ''library/busy'' (JStr ''latest'') initial_state
      = Some (Inr (JStr ''sha256:abc''), ?b1)"
    by (rule option_pair_of_fst)
  have nonempty: "truthy (JStr ''sha256:abc'')"
    and digest_string: "js_ToString ?env (JStr ''sha256:abc'') = Inr ''sha256:abc''"
    by simp_all
  have "fst (getAuthHeaders ?env ?H ''library/busy'' ?b1) = Inr (Defined ?bearer)"
    by code_simp
  then have auth5: "getAuthHeaders ?env ?H ''library/busy'' ?b1 = (Inr (Defined ?bearer), ?b2)"
    by (rule pair_of_fst)
  have "fst (http_get ?env (?H @ ''/v2/'' @ ''library/busy'' @ ''/blobs/'' @ ''sha256:abc'')
      (no_options\<lparr>opt_headers := Some ?bearer\<rparr>) ?b2) = Inl ?e"
    by code_simp
  then have fetch5: "http_get ?env (?H @ ''/v2/'' @ ''library/busy'' @ ''/blobs/'' @ ''sha256:abc'')
      (no_options\<lparr>opt_headers := Some ?bearer\<rparr>) ?b2 = (Inl ?e, ?b3)"
    by (rule pair_of_fst)
  have w5: "getLabels ?env ?H ''library/busy'' ''latest'' initial_state
      = Some (Inr (JObj []), ?b3)"
    using too_many_requests_classification [where env = ?env and r = ?H and s = initial_state
        and err = ?e and ?s1.0 = ?b1 and ?s2.0 = ?b2 and ?s3.0 = ?b3 and d = "''library/busy''"
        and h = ?bearer and tg = "''latest''" and configDigest = "JStr ''sha256:abc''"
        and digestStr = "''sha256:abc''"]
      miss digest nonempty auth5 digest_string fetch5 status
    by blast
  from w1 w2 w3 w4 w5 show ?thesis
    by simp
qed

text \<open>
  The claim as it is written fails twice: Docker Hub answers the blob request with 429
  and \<^verbatim>\<open>getLabels\<close> returns \<^verbatim>\<open>{}\<close>; \<^verbatim>\<open>https://mydocker.io\<close>, which is not the default registry,
  answers the manifest request with 429 and \<^verbatim>\<open>getManifestResponse\<close> raises the
  \<^verbatim>\<open>ExternalHostError\<close>.
\<close>

theorem too_many_requests_not_always_host_fatal:
  "http_get_impl (status_env 429) []
       ''https://index.docker.io/v2/library/busy/blobs/sha256:abc''
       (no_options\<lparr>opt_headers := Some [(''authorization'', ''Bearer tok'')]\<rparr>)
     = Inl (http_error 429)
   \<and> map_option (last \<circ> requests \<circ> snd)
       (getLabels (status_env 429) ''https://index.docker.io'' ''library/busy'' ''latest''
          initial_state)
     = Some (HttpGet ''https://index.docker.io/v2/library/busy/blobs/sha256:abc''
               (no_options\<lparr>opt_headers := Some [(''authorization'', ''Bearer tok'')]\<rparr>))
   \<and> map_option fst
       (getLabels (status_env 429) ''https://index.docker.io'' ''library/busy'' ''latest''
          initial_state)
     = Some (Inr (JObj []))
   \<and> ''https://mydocker.io'' \<notin> set defaultRegistryUrls
   \<and> fst (getManifestResponse (status_env 429) ''https://mydocker.io'' ''team/app''
            (JStr ''latest'') initial_state)
     = Inl (ExternalHostError (http_error 429))"
  by code_simp

text \<open>
  Claim C2, amended. An error of a status from 500 to 599 that reaches the \<^verbatim>\<open>catch\<close> of
  \<^verbatim>\<open>getAuthHeaders\<close> and whose \<^verbatim>\<open>host\<close> is not \<^verbatim>\<open>quay.io\<close>, and one raised by the manifest
  request of \<^verbatim>\<open>getManifestResponse\<close>, is thrown as an \<^verbatim>\<open>ExternalHostError\<close> around it, for
  every registry. The first probe of \<^verbatim>\<open>/v2/\<close> does not raise on a status: answered with
  such a status and no challenge, it gives the headers \<^verbatim>\<open>{}\<close>. An error of such a status
  raised by the blob request of \<^verbatim>\<open>getLabels\<close> is logged, and \<^verbatim>\<open>getLabels\<close> returns \<^verbatim>\<open>{}\<close>.
  Whatever \<^verbatim>\<open>getLabels\<close> raises is an \<^verbatim>\<open>ExternalHostError\<close>.
\<close>

theorem server_error_classification:
  "(http_get env (r @ ''/v2/'') (no_options\<lparr>opt_throwHttpErrors := Some False\<rparr>) s
        = (Inr probeResponse, s1)
      \<and> 500 \<le> resp_statusCode probeResponse \<and> resp_statusCode probeResponse < 600
      \<and> map_of (resp_headers probeResponse) ''www-authenticate'' = None
      \<longrightarrow> getAuthHeaders env r d s = (Inr (Defined []), s1))
   \<and> (getAuthHeaders_try env r d s = (Inl err, s1)
      \<and> exn_statusCode err = Some c \<and> 500 \<le> c \<and> c < 600
      \<and> exn_host err \<noteq> Some ''quay.io''
      \<longrightarrow> getAuthHeaders env r d s = (Inl (ExternalHostError err), s1))
   \<and> (getAuthHeaders env r d s = (Inr (Defined h), s1)
      \<and> js_ToString env tagv = Inr t
      \<and> http_get env (r @ ''/v2/'' @ d @ ''/manifests/'' @ t)
            (no_options\<lparr>opt_headers :=
               Some (AList.update ''accept'' (manifestListV2 @ '', '' @ manifestV2) h)\<rparr>) s1
          = (Inl err, s2)
      \<and> exn_statusCode err = Some c \<and> 500 \<le> c \<and> c < 600
      \<longrightarrow> getManifestResponse env r d tagv s = (Inl (ExternalHostError err), s2))
   \<and> (packageCache_get s ''datasource-docker-labels'' (r @ '':'' @ d @ '':'' @ tg) = JUndefined
      \<and> getConfigDigest env r d (JStr tg) s = Some (Inr configDigest, s1)
      \<and> truthy configDigest
      \<and> getAuthHeaders env r d s1 = (Inr (Defined h), s2)
      \<and> js_ToString env configDigest = Inr digestStr
      \<and> http_get env (r @ ''/v2/'' @ d @ ''/blobs/'' @ digestStr)
            (no_options\<lparr>opt_headers := Some h\<rparr>) s2 = (Inl err, s3)
      \<and> exn_statusCode err = Some c \<and> 500 \<le> c \<and> c < 600
      \<longrightarrow> getLabels env r d tg s = Some (Inr (JObj []), s3))
   \<and> (getLabels env r d tg s = Some (Inl x, s1) \<longrightarrow> instanceof_ExternalHostError x)"
proof (intro conjI impI)
  assume "http_get env (r @ ''/v2/'') (no_options\<lparr>opt_throwHttpErrors := Some False\<rparr>) s
        = (Inr probeResponse, s1)
      \<and> 500 \<le> resp_statusCode probeResponse \<and> resp_statusCode probeResponse < 600
      \<and> map_of (resp_headers probeResponse) ''www-authenticate'' = None"
  then show "getAuthHeaders env r d s = (Inr (Defined []), s1)"
    by (blast intro: getAuthHeaders_probe_without_challenge)
next
  assume a: "getAuthHeaders_try env r d s = (Inl err, s1)
      \<and> exn_statusCode err = Some c \<and> 500 \<le> c \<and> c < 600
      \<and> exn_host err \<noteq> Some ''quay.io''"
  then have "getAuthHeaders_catch env r err = Inl (ExternalHostError err)"
    by (simp add: getAuthHeaders_catch_def)
  with a show "getAuthHeaders env r d s = (Inl (ExternalHostError err), s1)"
    by (simp add: getAuthHeaders_catches)
next
  assume a: "getAuthHeaders env r d s = (Inr (Defined h), s1)
      \<and> js_ToString env tagv = Inr t
      \<and> http_get env (r @ ''/v2/'' @ d @ ''/manifests/'' @ t)
            (no_options\<lparr>opt_headers :=
               Some (AList.update ''accept'' (manifestListV2 @ '', '' @ manifestV2) h)\<rparr>) s1
          = (Inl err, s2)
      \<and> exn_statusCode err = Some c \<and> 500 \<le> c \<and> c < 600"
  then have "\<not> instanceof_ExternalHostError err"
    by (cases err) simp_all
  with a have "getManifestResponse_catch r err = Inl (ExternalHostError err)"
    by (simp add: getManifestResponse_catch_def)
  moreover from a have "getManifestResponse env r d tagv s = (getManifestResponse_catch r err, s2)"
    by (intro getManifestResponse_fetch_raises) blast+
  ultimately show "getManifestResponse env r d tagv s = (Inl (ExternalHostError err), s2)"
    by simp
next
  assume a: "packageCache_get s ''datasource-docker-labels'' (r @ '':'' @ d @ '':'' @ tg) = JUndefined
      \<and> getConfigDigest env r d (JStr tg) s = Some (Inr configDigest, s1)
      \<and> truthy configDigest
      \<and> getAuthHeaders env r d s1 = (Inr (Defined h), s2)
      \<and> js_ToString env configDigest = Inr digestStr
      \<and> http_get env (r @ ''/v2/'' @ d @ ''/blobs/'' @ digestStr)
            (no_options\<lparr>opt_headers := Some h\<rparr>) s2 = (Inl err, s3)
      \<and> exn_statusCode err = Some c \<and> 500 \<le> c \<and> c < 600"
  then have "getLabels env r d tg s = Some (getLabels_catch r err, s3)"
    by (intro getLabels_blob_raises) blast+
  moreover from a have "getLabels_catch r err = Inr (JObj [])"
    by (blast intro: getLabels_catch_status)
  ultimately show "getLabels env r d tg s = Some (Inr (JObj []), s3)"
    by simp
next
  assume "getLabels env r d tg s = Some (Inl x, s1)"
  then show "instanceof_ExternalHostError x"
    by (rule getLabels_raises_host_fatal_only)
qed

text \<open>With 503 as the status of \<open>status_env\<close>.\<close>

theorem server_error_classification_witness:
  "fst (getAuthHeaders (status_env 503) ''https://registry.example.com'' ''team/app''
          initial_state) = Inr (Defined [])
   \<and> fst (getAuthHeaders (status_env 503) ''https://index.docker.io'' ''library/limited''
          initial_state) = Inl (ExternalHostError (http_error 503))
   \<and> fst (getManifestResponse (status_env 503) ''https://index.docker.io'' ''library/node''
          (JStr ''latest'') initial_state) = Inl (ExternalHostError (http_error 503))
   \<and> fst (getManifestResponse (status_env 503) ''https://registry.example.com'' ''team/app''
          (JStr ''latest'') initial_state) = Inl (ExternalHostError (http_error 503))
   \<and> map_option fst (getLabels (status_env 503) ''https://index.docker.io'' ''library/busy''
          ''latest'' initial_state) = Some (Inr (JObj []))
   \<and> map_option fst (getLabels (status_env 503) ''https://index.docker.io'' ''library/node''
          ''latest'' initial_state) = Some (Inl (ExternalHostError (http_error 503)))
   \<and> instanceof_ExternalHostError (ExternalHostError (http_error 503))"
proof -
  let ?env = "status_env 503"
  let ?H = "''https://index.docker.io''"
  let ?R = "''https://registry.example.com''"
  let ?e = "http_error 503"
  let ?probe_opts = "no_options\<lparr>opt_throwHttpErrors := Some False\<rparr>"
  let ?accept = "AList.update ''accept'' (manifestListV2 @ '', '' @ manifestV2)"
  let ?bearer = "[(''authorization'', ''Bearer tok'')]"
  have status: "exn_statusCode ?e = Some 503" and host: "exn_host ?e \<noteq> Some ''quay.io''"
    by (simp_all add: http_error_def)
  have range: "(500::int) \<le> 503" "(503::int) < 600"
    by simp_all
  have latest: "js_ToString ?env (JStr ''latest'') = Inr ''latest''"
    by simp
  \<comment> \<open>the probe answered 503\<close>
  let ?p1 = "snd (http_get ?env (?R @ ''/v2/'') ?probe_opts initial_state)"
  have "fst (http_get ?env (?R @ ''/v2/'') ?probe_opts initial_state) = Inr (respond 503 [] [])"
    by code_simp
  then have probe: "http_get ?env (?R @ ''/v2/'') ?probe_opts initial_state
      = (Inr (respond 503 [] []), ?p1)"
    by (rule pair_of_fst)
  have probe_status: "500 \<le> resp_statusCode (respond 503 [] [])"
      "resp_statusCode (respond 503 [] []) < 600"
    and probe_header: "map_of (resp_headers (respond 503 [] [])) ''www-authenticate'' = None"
    by (simp_all add: respond_def)
  have w1: "getAuthHeaders ?env ?R ''team/app'' initial_state = (Inr (Defined []), ?p1)"
    using server_error_classification [where env = ?env and r = ?R and s = initial_state
        and probeResponse = "respond 503 [] []" and ?s1.0 = ?p1 and d = "''team/app''"]
      probe probe_status probe_header
    by blast
  \<comment> \<open>the token request answered 503\<close>
  let ?a1 = "snd (getAuthHeaders_try ?env ?H ''library/limited'' initial_state)"
  have "fst (getAuthHeaders_try ?env ?H ''library/limited'' initial_state) = Inl ?e"
    by code_simp
  then have token: "getAuthHeaders_try ?env ?H ''library/limited'' initial_state = (Inl ?e, ?a1)"
    by (rule pair_of_fst)
  have w2: "getAuthHeaders ?env ?H ''library/limited'' initial_state
      = (Inl (ExternalHostError ?e), ?a1)"
    using server_error_classification [where env = ?env and r = ?H and s = initial_state
        and err = ?e and ?s1.0 = ?a1 and d = "''library/limited''" and c = 503]
      token status host range
    by blast
  \<comment> \<open>the manifest request answered 503, by Docker Hub\<close>
  let ?m1 = "snd (getAuthHeaders ?env ?H ''library/node'' initial_state)"
  let ?m2 = "snd (http_get ?env (?H @ ''/v2/'' @ ''library/node'' @ ''/manifests/'' @ ''latest'')
                    (no_options\<lparr>opt_headers := Some (?accept ?bearer)\<rparr>) ?m1)"
  have "fst (getAuthHeaders ?env ?H ''library/node'' initial_state) = Inr (Defined ?bearer)"
    by code_simp
  then have auth3: "getAuthHeaders ?env ?H ''library/node'' initial_state
      = (Inr (Defined ?bearer), ?m1)"
    by (rule pair_of_fst)
  have "fst (http_get ?env (?H @ ''/v2/'' @ ''library/node'' @ ''/manifests/'' @ ''latest'')
      (no_options\<lparr>opt_headers := Some (?accept ?bearer)\<rparr>) ?m1) = Inl ?e"
    by code_simp
  then have fetch3: "http_get ?env (?H @ ''/v2/'' @ ''library/node'' @ ''/manifests/'' @ ''latest'')
      (no_options\<lparr>opt_headers := Some (?accept ?bearer)\<rparr>) ?m1 = (Inl ?e, ?m2)"
    by (rule pair_of_fst)
  have w3: "getManifestResponse ?env ?H ''library/node'' (JStr ''latest'') initial_state
      = (Inl (ExternalHostError ?e), ?m2)"
    using server_error_classification [where env = ?env and r = ?H and s = initial_state
        and err = ?e and ?s1.0 = ?m1 and ?s2.0 = ?m2 and d = "''library/node''"
        and h = ?bearer and tagv = "JStr ''latest''" and t = "''latest''" and c = 503]
      auth3 latest fetch3 status range
    by blast
  \<comment> \<open>the manifest request answered 503, by another registry\<close>
  let ?n2 = "snd (http_get ?env (?R @ ''/v2/'' @ ''team/app'' @ ''/manifests/'' @ ''latest'')
                    (no_options\<lparr>opt_headers := Some (?accept [])\<rparr>) ?p1)"
  have "fst (http_get ?env (?R @ ''/v2/'' @ ''team/app'' @ ''/manifests/'' @ ''latest'')
      (no_options\<lparr>opt_headers := Some (?accept [])\<rparr>) ?p1) = Inl ?e"
    by code_simp
  then have fetch4: "http_get ?env (?R @ ''/v2/'' @ ''team/app'' @ ''/manifests/'' @ ''latest'')
      (no_options\<lparr>opt_headers := Some (?accept [])\<rparr>) ?p1 = (Inl ?e, ?n2)"
    by (rule pair_of_fst)
  have w4: "getManifestResponse ?env ?R ''team/app'' (JStr ''latest'') initial_state
      = (Inl (ExternalHostError ?e), ?n2)"
    using server_error_classification [where env = ?env and r = ?R and s = initial_state
        and err = ?e and ?s1.0 = ?p1 and ?s2.0 = ?n2 and d = "''team/app''"
        and h = "[]" and tagv = "JStr ''latest''" and t = "''latest''" and c = 503]
      w1 latest fetch4 status range
    by blast
  \<comment> \<open>the blob request answered 503\<close>
  let ?b1 = "snd (the (getConfigDigest ?env ?H ''library/busy'' (JStr ''latest'') initial_state))"
  let ?b2 = "snd (getAuthHeaders ?env ?H ''library/busy'' ?b1)"
  let ?b3 = "snd (http_get ?env (?H @ ''/v2/'' @ ''library/busy'' @ ''/blobs/'' @ ''sha256:abc'')
                    (no_options\<lparr>opt_headers := Some ?bearer\<rparr>) ?b2)"
  have miss: "packageCache_get initial_state ''datasource-docker-labels''
      (?H @ '':'' @ ''library/busy'' @ '':'' @ ''latest'') = JUndefined"
    by code_simp
  have "map_option fst (getConfigDigest ?env ?H ''library/busy'' (JStr ''latest'') initial_state)
      = Some (Inr (JStr ''sha256:abc''))"
    by code_simp
  then have digest: "getConfigDigest ?env ?H ''library/busy'' (JStr ''latest'') initial_state
      = Some (Inr (JStr ''sha256:abc''), ?b1)"
    by (rule option_pair_of_fst)
  have nonempty: "truthy (JStr ''sha256:abc'')"
    and digest_string: "js_ToString ?env (JStr ''sha256:abc'') = Inr ''sha256:abc''"
    by simp_all
  have "fst (getAuthHeaders ?env ?H ''library/busy'' ?b1) = Inr (Defined ?bearer)"
    by code_simp
  then have auth5: "getAuthHeaders ?env ?H ''library/busy'' ?b1 = (Inr (Defined ?bearer), ?b2)"
    by (rule pair_of_fst)
  have "fst (http_get ?env (?H @ ''/v2/'' @ ''library/busy'' @ ''/blobs/'' @ ''sha256:abc'')
      (no_options\<lparr>opt_headers := Some ?bearer\<rparr>) ?b2) = Inl ?e"
    by code_simp
  then have fetch5: "http_get ?env (?H @ ''/v2/'' @ ''library/busy'' @ ''/blobs/'' @ ''sha256:abc'')
      (no_options\<lparr>opt_headers := Some ?bearer\<rparr>) ?b2 = (Inl ?e, ?b3)"
    by (rule pair_of_fst)
  have w5: "getLabels ?env ?H ''library/busy'' ''latest'' initial_state
      = Some (Inr (JObj []), ?b3)"
    using server_error_classification [where env = ?env and r = ?H and s = initial_state
        and err = ?e and ?s1.0 = ?b1 and ?s2.0 = ?b2 and ?s3.0 = ?b3 and d = "''library/busy''"
        and h = ?bearer and tg = "''latest''" and configDigest = "JStr ''sha256:abc''"
        and digestStr = "''sha256:abc''" and c = 503]
      miss digest nonempty auth5 digest_string fetch5 status range
    by blast
  \<comment> \<open>what \<open>getLabels\<close> raises\<close>
  let ?g1 = "snd (the (getLabels ?env ?H ''library/node'' ''latest'' initial_state))"
  have raised: "map_option fst (getLabels ?env ?H ''library/node'' ''latest'' initial_state)
      = Some (Inl (ExternalHostError ?e))"
    by code_simp
  then have w6: "getLabels ?env ?H ''library/node'' ''latest'' initial_state
      = Some (Inl (ExternalHostError ?e), ?g1)"
    by (rule option_pair_of_fst)
  have w7: "instanceof_ExternalHostError (ExternalHostError ?e)"
    using server_error_classification [where env = ?env and r = ?H and s = initial_state
        and ?s1.0 = ?g1 and d = "''library/node''" and tg = "''latest''"
        and x = "ExternalHostError ?e"]
      w6
    by blast
  from w1 w2 w3 w4 w5 have "fst (getAuthHeaders ?env ?R ''team/app'' initial_state)
        = Inr (Defined [])
      \<and> fst (getAuthHeaders ?env ?H ''library/limited'' initial_state)
        = Inl (ExternalHostError ?e)
      \<and> fst (getManifestResponse ?env ?H ''library/node'' (JStr ''latest'') initial_state)
        = Inl (ExternalHostError ?e)
      \<and> fst (getManifestResponse ?env ?R ''team/app'' (JStr ''latest'') initial_state)
        = Inl (ExternalHostError ?e)
      \<and> map_option fst (getLabels ?env ?H ''library/busy'' ''latest'' initial_state)
        = Some (Inr (JObj []))"
    by simp
  with raised w7 show ?thesis
    by (intro conjI) blast+
qed

text \<open>
  The claim as it is written fails: Docker Hub answers the blob request with 503 and
  \<^verbatim>\<open>getLabels\<close> returns \<^verbatim>\<open>{}\<close>; \<^verbatim>\<open>getLabels\<close> raises on a 429 of the manifest request of Docker
  Hub, which is no 5xx; and the probe answered 503 raises nothing.
\<close>

theorem server_error_not_always_host_fatal:
  "http_get_impl (status_env 503) []
       ''https://index.docker.io/v2/library/busy/blobs/sha256:abc''
       (no_options\<lparr>opt_headers := Some [(''authorization'', ''Bearer tok'')]\<rparr>)
     = Inl (http_error 503)
   \<and> map_option (last \<circ> requests \<circ> snd)
       (getLabels (status_env 503) ''https://index.docker.io'' ''library/busy'' ''latest''
          initial_state)
     = Some (HttpGet ''https://index.docker.io/v2/library/busy/blobs/sha256:abc''
               (no_options\<lparr>opt_headers := Some [(''authorization'', ''Bearer tok'')]\<rparr>))
   \<and> map_option fst
       (getLabels (status_env 503) ''https://index.docker.io'' ''library/busy'' ''latest''
          initial_state)
     = Some (Inr (JObj []))
   \<and> map_option fst
       (getLabels (status_env 429) ''https://index.docker.io'' ''library/node'' ''latest''
          initial_state)
     = Some (Inl (ExternalHostError (http_error 429)))
   \<and> fst (http_get (status_env 503) ''https://registry.example.com/v2/''
            (no_options\<lparr>opt_throwHttpErrors := Some False\<rparr>) initial_state)
     = Inr (respond 503 [] [])
   \<and> fst (getAuthHeaders (status_env 503) ''https://registry.example.com'' ''team/app''
            initial_state)
     = Inr (Defined [])"
  by code_simp

end
